theory Spec2Isabelle
  imports Complex_Main
begin

section \<open>Profile images of accounts/models.py\<close>

text \<open>
  The image methods of \<open>Profile\<close> (\<open>profile_image_url\<close>, \<open>profile_image_thumb_url\<close>,
  \<open>save\<close>, \<open>resize_profile_image\<close>) are glue code: every pixel operation is a call into
  Pillow, every file and storage operation a call into Django or django-imagekit.  None
  of these libraries is part of the repository, so each library call is a field of the
  record \<open>env\<close> below and may raise.  What the methods themselves do (the order of the
  calls, their arguments, the guards, the tuple index, what is returned) is written out.
\<close>

subsection \<open>Data\<close>

type_synonym bytes = "nat list"
type_synonym dims = "nat \<times> nat"
type_synonym color = "nat \<times> nat \<times> nat"

text \<open>
  An exception: \<open>IndexError\<close> is the one the methods can raise themselves (the tuple index
  \<open>split()[3]\<close>); \<open>Raised c\<close> is an exception of class \<open>c\<close> raised inside a library call.
\<close>

datatype exn = IndexError | Raised string

text \<open>The resampling filters of Pillow's \<open>Image\<close> module.\<close>

datatype resample = NEAREST | ANTIALIAS | BILINEAR | BICUBIC

text \<open>
  A Django file object as the methods see it: the arguments of
  \<open>InMemoryUploadedFile(file, field_name, name, content_type, size, charset)\<close>.
  A \<open>FieldFile\<close> read from the database has only a name and its stored bytes.
\<close>

record uploaded =
  content :: bytes
  field_name :: "string option"
  name :: "string option"
  content_type :: "string option"
  size_arg :: "nat option"
  charset :: "string option"

record profile =
  username :: string
  first_name :: string
  last_name :: string
  about_me :: string
  is_verified :: bool
  profile_image :: uploaded

text \<open>\<open>settings.PROFILE_IMG\<close> and \<open>settings.MEDIA_ROOT\<close>.\<close>

record settings =
  SIZE :: dims
  THUMB_SIZE :: dims
  WHITE_BG :: color
  MEDIA_ROOT :: string

text \<open>The library calls the methods make, with their arguments, in the order made.\<close>

datatype ('img, 'band) call =
    Call_open uploaded
  | Call_fit 'img dims resample "rat \<times> rat"
  | Call_new string dims color
  | Call_split 'img
  | Call_paste 'img 'img 'band
  | Call_save 'img string nat
  | Call_tell 'img
  | Call_InMemoryUploadedFile bytes string "string option" string nat
  | Call_exists string
  | Call_url uploaded
  | Call_thumb_bool uploaded
  | Call_thumb_name uploaded
  | Call_thumb_url uploaded
  | Call_super_save profile

text \<open>
  The libraries.  \<open>Image_mode\<close> and \<open>Image_size\<close> are the attributes \<open>mode\<close> and
  \<open>size\<close> of a Pillow image (the methods read only \<open>mode\<close>);
  \<open>Image_paste canvas im mask\<close> returns the canvas after the in-place
  paste; \<open>Image_save im format quality\<close> returns the bytes written to the
  \<open>BytesIO\<close> buffer; the \<open>thumb_\<close> fields are the truth value, the name and the URL of
  the imagekit \<open>ImageSpecField\<close> whose source is the given \<open>profile_image\<close>;
  \<open>Model_save\<close> is \<open>super().save\<close>, acting on the persisted state \<open>'db\<close>.
\<close>

record ('img, 'band, 'db) env =
  Image_open :: "uploaded \<Rightarrow> exn + 'img"
  ImageOps_fit :: "'img \<Rightarrow> dims \<Rightarrow> resample \<Rightarrow> rat \<times> rat \<Rightarrow> exn + 'img"
  Image_mode :: "'img \<Rightarrow> string"
  Image_size :: "'img \<Rightarrow> dims"
  Image_new :: "string \<Rightarrow> dims \<Rightarrow> color \<Rightarrow> exn + 'img"
  Image_split :: "'img \<Rightarrow> exn + 'band list"
  Image_paste :: "'img \<Rightarrow> 'img \<Rightarrow> 'band \<Rightarrow> exn + 'img"
  Image_save :: "'img \<Rightarrow> string \<Rightarrow> nat \<Rightarrow> exn + bytes"
  Image_tell :: "'img \<Rightarrow> exn + nat"
  InMemoryUploadedFile :: "bytes \<Rightarrow> string \<Rightarrow> string option \<Rightarrow> string \<Rightarrow> nat \<Rightarrow> exn + uploaded"
  storage_exists :: "string \<Rightarrow> exn + bool"
  file_url :: "uploaded \<Rightarrow> exn + string"
  thumb_bool :: "uploaded \<Rightarrow> exn + bool"
  thumb_name :: "uploaded \<Rightarrow> exn + string"
  thumb_url :: "uploaded \<Rightarrow> exn + string"
  Model_save :: "profile \<Rightarrow> 'db \<Rightarrow> (exn + profile) \<times> 'db"

subsection \<open>Sequencing with exceptions\<close>

text \<open>
  A run of a method: the library calls made so far, and an exception or a value.  An
  exception ends the run: no later call is made.
\<close>

type_synonym ('c, 'a) run = "'c list \<times> (exn + 'a)"

definition ret :: "'a \<Rightarrow> ('c, 'a) run" where
  "ret x = ([], Inr x)"

definition raise :: "exn \<Rightarrow> ('c, 'a) run" where
  "raise e = ([], Inl e)"

definition call :: "'c \<Rightarrow> exn + 'a \<Rightarrow> ('c, 'a) run" where
  "call c r = ([c], r)"

definition and_then :: "('c, 'a) run \<Rightarrow> ('a \<Rightarrow> ('c, 'b) run) \<Rightarrow> ('c, 'b) run" where
  "and_then m f =
     (case m of
        (t, Inl e) \<Rightarrow> (t, Inl e)
      | (t, Inr x) \<Rightarrow> (case f x of (t', r) \<Rightarrow> (t @ t', r)))"

text \<open>Python's \<open>xs[i]\<close> for a tuple and an index that is not negative.\<close>

definition index :: "'a list \<Rightarrow> nat \<Rightarrow> ('c, 'a) run" where
  "index xs i = (if i < length xs then ret (xs ! i) else raise IndexError)"

text \<open>\<open>bool(f)\<close> of a Django file: \<open>bool(self.name)\<close>.\<close>

definition truthy :: "uploaded \<Rightarrow> bool" where
  "truthy f = (case name f of None \<Rightarrow> False | Some n \<Rightarrow> n \<noteq> [])"

text \<open>\<open>os.path.join(a, b)\<close> of \<open>posixpath\<close>.\<close>

definition os_path_join :: "string \<Rightarrow> string \<Rightarrow> string" where
  "os_path_join a b =
     (if b \<noteq> [] \<and> hd b = CHR ''/'' then b
      else if a = [] \<or> last a = CHR ''/'' then a @ b
      else a @ ''/'' @ b)"

subsection \<open>Profile.resize_profile_image and Profile.save\<close>

definition resize_profile_image ::
  "('img, 'band, 'db) env \<Rightarrow> settings \<Rightarrow> profile \<Rightarrow> (('img, 'band) call, profile) run" where
  "resize_profile_image env st self =
     and_then (call (Call_open (profile_image self)) (Image_open env (profile_image self)))
       (\<lambda>opened.
     and_then (call (Call_fit opened (SIZE st) ANTIALIAS (1/2, 1/2))
                 (ImageOps_fit env opened (SIZE st) ANTIALIAS (1/2, 1/2)))
       (\<lambda>fitted.
     and_then
       (if Image_mode env fitted \<notin> set [''L'', ''RGB''] then
          and_then (call (Call_new ''RGB'' (SIZE st) (WHITE_BG st))
                      (Image_new env ''RGB'' (SIZE st) (WHITE_BG st)))
            (\<lambda>white_bg_img.
          and_then (call (Call_split fitted) (Image_split env fitted))
            (\<lambda>bands.
          and_then (index bands 3)
            (\<lambda>mask.
          call (Call_paste white_bg_img fitted mask)
            (Image_paste env white_bg_img fitted mask))))
        else ret fitted)
       (\<lambda>out.
     and_then (call (Call_save out ''JPEG'' 90) (Image_save env out ''JPEG'' 90))
       (\<lambda>tmp_image_file.
     and_then (call (Call_tell out) (Image_tell env out))
       (\<lambda>pos.
     and_then
       (call (Call_InMemoryUploadedFile tmp_image_file ''ImageField''
                (name (profile_image self)) ''image/jpeg'' pos)
          (InMemoryUploadedFile env tmp_image_file ''ImageField''
                (name (profile_image self)) ''image/jpeg'' pos))
       (\<lambda>f. ret (self\<lparr>profile_image := f\<rparr>)))))))"

text \<open>
  \<open>save\<close> returns the calls made, the exception or the saved profile, and the persisted
  state.  An exception of \<open>resize_profile_image\<close> leaves \<open>super().save\<close> uncalled.
\<close>

definition save ::
  "('img, 'band, 'db) env \<Rightarrow> settings \<Rightarrow> profile \<Rightarrow> 'db
     \<Rightarrow> ('img, 'band) call list \<times> (exn + profile) \<times> 'db" where
  "save env st self db =
     (case (if truthy (profile_image self) then resize_profile_image env st self
            else ret self) of
        (t, Inl e) \<Rightarrow> (t, Inl e, db)
      | (t, Inr self') \<Rightarrow>
          (case Model_save env self' db of
             (r, db') \<Rightarrow> (t @ [Call_super_save self'], r, db')))"

subsection \<open>The two URL properties\<close>

definition profile_image_url ::
  "('img, 'band, 'db) env \<Rightarrow> settings \<Rightarrow> profile \<Rightarrow> (('img, 'band) call, string) run" where
  "profile_image_url env st self =
     (if truthy (profile_image self) then
        and_then
          (call (Call_exists (os_path_join (MEDIA_ROOT st) (the (name (profile_image self)))))
             (storage_exists env
                (os_path_join (MEDIA_ROOT st) (the (name (profile_image self))))))
          (\<lambda>file_exists.
             if file_exists
             then call (Call_url (profile_image self)) (file_url env (profile_image self))
             else ret ''/static/img/no_image_md.png'')
      else ret ''/static/img/no_image_md.png'')"

definition profile_image_thumb_url ::
  "('img, 'band, 'db) env \<Rightarrow> settings \<Rightarrow> profile \<Rightarrow> (('img, 'band) call, string) run" where
  "profile_image_thumb_url env st self =
     and_then (call (Call_thumb_bool (profile_image self)) (thumb_bool env (profile_image self)))
       (\<lambda>thumb.
          if thumb then
            and_then
              (call (Call_thumb_name (profile_image self)) (thumb_name env (profile_image self)))
              (\<lambda>thumb_file_name.
            and_then
              (call (Call_exists (os_path_join (MEDIA_ROOT st) thumb_file_name))
                 (storage_exists env (os_path_join (MEDIA_ROOT st) thumb_file_name)))
              (\<lambda>file_exists.
                 if file_exists
                 then call (Call_thumb_url (profile_image self))
                        (thumb_url env (profile_image self))
                 else ret ''/static/img/no_image_md.png''))
          else ret ''/static/img/no_image_md.png'')"

subsection \<open>The geometry of the fit, as the specification describes it\<close>

text \<open>
  Modelled from the spec: \<open>ImageOps.fit\<close> (Pillow), which \<open>resize_profile_image\<close> calls
  at lines 141-146 and which is not among the repository's sources.  Section 4.2 of the
  specification, steps 1 to 3: the scale is \<open>s = max(tw / w, th / h)\<close>; the buffer is resized
  to \<open>round(w*s)\<close> by \<open>round(h*s)\<close>; the resized buffer is cropped to \<open>(tw, th)\<close> with
  origin \<open>((resized_w - tw)/2, (resized_h - th)/2)\<close>.
\<close>

definition fit_scale :: "dims \<Rightarrow> dims \<Rightarrow> rat" where
  "fit_scale src target =
     max (of_nat (fst target) / of_nat (fst src)) (of_nat (snd target) / of_nat (snd src))"

text \<open>
  Modelled from the spec: the dimensions after the resize of \<open>ImageOps.fit\<close> (not among
  the sources), \<open>round(w*s)\<close> by \<open>round(h*s)\<close> (section 4.2, step 2).
\<close>

definition fit_resized :: "dims \<Rightarrow> dims \<Rightarrow> int \<times> int" where
  "fit_resized src target =
     (round (of_nat (fst src) * fit_scale src target),
      round (of_nat (snd src) * fit_scale src target))"

text \<open>
  Modelled from the spec: the crop origin of \<open>ImageOps.fit\<close> (not among the sources),
  \<open>((resized_w - tw)/2, (resized_h - th)/2)\<close> (section 4.2, step 3).
\<close>

definition fit_crop_origin :: "dims \<Rightarrow> dims \<Rightarrow> rat \<times> rat" where
  "fit_crop_origin src target =
     ((of_int (fst (fit_resized src target)) - of_nat (fst target)) / 2,
      (of_int (snd (fit_resized src target)) - of_nat (snd target)) / 2)"

text \<open>
  Modelled from the spec: the crop box \<open>(left, upper, right, lower)\<close> of
  \<open>ImageOps.fit\<close> (not among the sources) in the resized buffer: the origin, and the
  origin plus \<open>(tw, th)\<close> (section 4.2, step 3).
\<close>

definition fit_crop_box :: "dims \<Rightarrow> dims \<Rightarrow> rat \<times> rat \<times> rat \<times> rat" where
  "fit_crop_box src target =
     (fst (fit_crop_origin src target),
      snd (fit_crop_origin src target),
      fst (fit_crop_origin src target) + of_nat (fst target),
      snd (fit_crop_origin src target) + of_nat (snd target))"

subsection \<open>A small concrete library\<close>

text \<open>
  One value of \<open>env\<close>, to run the methods on concrete inputs.  An image is a mode, its
  dimensions and its bands, each band the pixel values row by row.  The codec is a
  toy: a mode code, the width, the height, then the bands.  The fit samples the centred
  region of the target's aspect ratio by nearest neighbour, keeps the mode, and divides
  by the height, as Pillow does.  The file constructor keeps the base name of the name
  it is given, as Django's \<open>UploadedFile\<close> does.
\<close>

record dimg =
  d_mode :: string
  d_size :: dims
  d_bands :: "nat list list"

definition mode_of_code :: "nat \<Rightarrow> (string \<times> nat) option" where
  "mode_of_code c =
     (if c = 0 then Some (''L'', 1)
      else if c = 1 then Some (''RGB'', 3)
      else if c = 2 then Some (''RGBA'', 4)
      else if c = 3 then Some (''P'', 1)
      else None)"

definition code_of_mode :: "string \<Rightarrow> nat" where
  "code_of_mode m =
     (if m = ''L'' then 0 else if m = ''RGB'' then 1 else if m = ''RGBA'' then 2 else 3)"

definition demo_decode :: "bytes \<Rightarrow> exn + dimg" where
  "demo_decode bs =
     (case bs of
        c # w # h # px \<Rightarrow>
          (case mode_of_code c of
             None \<Rightarrow> Inl (Raised ''UnidentifiedImageError'')
           | Some (m, k) \<Rightarrow>
               if length px = k * (w * h)
               then Inr \<lparr>d_mode = m, d_size = (w, h),
                         d_bands = map (\<lambda>i. take (w * h) (drop (i * (w * h)) px)) [0..<k]\<rparr>
               else Inl (Raised ''UnidentifiedImageError''))
      | _ \<Rightarrow> Inl (Raised ''UnidentifiedImageError''))"

definition demo_encode :: "dimg \<Rightarrow> bytes" where
  "demo_encode im =
     code_of_mode (d_mode im) # fst (d_size im) # snd (d_size im) # concat (d_bands im)"

definition demo_src_index :: "dims \<Rightarrow> dims \<Rightarrow> nat \<Rightarrow> nat" where
  "demo_src_index src target i =
     (let w = fst src; h = snd src; tw = fst target; th = snd target;
          cw = (if h * tw \<le> w * th then max 1 (h * tw div th) else w);
          ch = (if h * tw \<le> w * th then h else max 1 (w * th div tw));
          cx = (w - cw) div 2;
          cy = (h - ch) div 2
      in (cy + (i div tw) * ch div th) * w + (cx + (i mod tw) * cw div tw))"

definition demo_fit :: "dimg \<Rightarrow> dims \<Rightarrow> resample \<Rightarrow> rat \<times> rat \<Rightarrow> exn + dimg" where
  "demo_fit im target method centering =
     (if snd (d_size im) = 0 \<or> snd target = 0 then Inl (Raised ''ZeroDivisionError'')
      else if fst (d_size im) = 0 \<or> fst target = 0 then Inl (Raised ''ValueError'')
      else Inr \<lparr>d_mode = d_mode im, d_size = target,
                d_bands = map (\<lambda>b. map (\<lambda>i. b ! demo_src_index (d_size im) target i)
                                       [0..<fst target * snd target])
                              (d_bands im)\<rparr>)"

definition demo_new :: "string \<Rightarrow> dims \<Rightarrow> color \<Rightarrow> exn + dimg" where
  "demo_new m sz c =
     (if m = ''RGB''
      then Inr \<lparr>d_mode = ''RGB'', d_size = sz,
                d_bands = [map (\<lambda>i. fst c) [0..<fst sz * snd sz],
                           map (\<lambda>i. fst (snd c)) [0..<fst sz * snd sz],
                           map (\<lambda>i. snd (snd c)) [0..<fst sz * snd sz]]\<rparr>
      else Inl (Raised ''ValueError''))"

definition demo_blend :: "nat \<Rightarrow> nat \<Rightarrow> nat \<Rightarrow> nat" where
  "demo_blend lower upper alpha = (upper * alpha + lower * (255 - alpha)) div 255"

definition demo_paste :: "dimg \<Rightarrow> dimg \<Rightarrow> nat list \<Rightarrow> exn + dimg" where
  "demo_paste canvas im alpha =
     (if d_size im \<noteq> d_size canvas \<or> length (d_bands im) < length (d_bands canvas)
      then Inl (Raised ''ValueError'')
      else Inr (canvas\<lparr>d_bands :=
                  map (\<lambda>k. map (\<lambda>i. demo_blend (d_bands canvas ! k ! i) (d_bands im ! k ! i)
                                       (alpha ! i))
                              [0..<fst (d_size canvas) * snd (d_size canvas)])
                      [0..<length (d_bands canvas)]\<rparr>))"

definition demo_save :: "dimg \<Rightarrow> string \<Rightarrow> nat \<Rightarrow> exn + bytes" where
  "demo_save im fmt quality =
     (if fmt = ''JPEG'' then Inr (demo_encode im) else Inl (Raised ''KeyError''))"

definition basename :: "string \<Rightarrow> string" where
  "basename p = rev (takeWhile (\<lambda>c. c \<noteq> CHR ''/'') (rev p))"

definition demo_InMemoryUploadedFile ::
  "bytes \<Rightarrow> string \<Rightarrow> string option \<Rightarrow> string \<Rightarrow> nat \<Rightarrow> exn + uploaded" where
  "demo_InMemoryUploadedFile bs fld n ctype sz =
     Inr \<lparr>content = bs, field_name = Some fld, name = map_option basename n,
          content_type = Some ctype, size_arg = Some sz, charset = None\<rparr>"

text \<open>
  The storage is the list of the paths that exist; the persisted state is the list of
  the profiles saved, the latest first.
\<close>

definition demo_env :: "string list \<Rightarrow> (dimg, nat list, profile list) env" where
  "demo_env stored =
     \<lparr>Image_open = (\<lambda>f. demo_decode (content f)),
      ImageOps_fit = demo_fit,
      Image_mode = d_mode,
      Image_size = d_size,
      Image_new = demo_new,
      Image_split = (\<lambda>im. Inr (d_bands im)),
      Image_paste = demo_paste,
      Image_save = demo_save,
      Image_tell = (\<lambda>im. Inr 0),
      InMemoryUploadedFile = demo_InMemoryUploadedFile,
      storage_exists = (\<lambda>p. Inr (p \<in> set stored)),
      file_url = (\<lambda>f. Inr (''/media/'' @ the (name f))),
      thumb_bool = (\<lambda>f. Inr (truthy f)),
      thumb_name = (\<lambda>f. Inr (''CACHE/'' @ the (name f))),
      thumb_url = (\<lambda>f. Inr (''/media/CACHE/'' @ the (name f))),
      Model_save = (\<lambda>p db. (Inr p, p # db))\<rparr>"

definition demo_settings :: settings where
  "demo_settings =
     \<lparr>SIZE = (2, 2), THUMB_SIZE = (1, 1), WHITE_BG = (255, 255, 255),
      MEDIA_ROOT = ''/srv/media''\<rparr>"

definition demo_upload :: "string \<Rightarrow> bytes \<Rightarrow> uploaded" where
  "demo_upload n bs =
     \<lparr>content = bs, field_name = None, name = Some n, content_type = None,
      size_arg = None, charset = None\<rparr>"

definition demo_profile :: "uploaded \<Rightarrow> profile" where
  "demo_profile f =
     \<lparr>username = ''ada'', first_name = ''Ada'', last_name = ''Lovelace'', about_me = [],
      is_verified = False, profile_image = f\<rparr>"

text \<open>
  Concrete uploads: a 2 by 2 grayscale image, the same under a stored name with its
  upload directory, a 2 by 2 palette image (one band, as a GIF decodes), a 4 by 2
  image with an alpha band, an image of height zero, and bytes that are no image.
\<close>

definition gray_upload :: uploaded where
  "gray_upload = demo_upload ''a.png'' [0, 2, 2, 10, 20, 30, 40]"

definition stored_upload :: uploaded where
  "stored_upload = demo_upload ''profile_uploads/a.png'' [0, 2, 2, 10, 20, 30, 40]"

definition palette_upload :: uploaded where
  "palette_upload = demo_upload ''a.gif'' [3, 2, 2, 0, 1, 1, 0]"

definition rgba_upload :: uploaded where
  "rgba_upload =
     demo_upload ''a.png''
       [2, 4, 2, 1, 2, 3, 4, 5, 6, 7, 8, 11, 12, 13, 14, 15, 16, 17, 18,
        21, 22, 23, 24, 25, 26, 27, 28, 0, 0, 255, 0, 0, 255, 0, 0]"

definition flat_upload :: uploaded where
  "flat_upload = demo_upload ''a.png'' [0, 3, 0]"

definition broken_upload :: uploaded where
  "broken_upload = demo_upload ''a.png'' [9, 9]"

text \<open>What normalizing \<open>gray_upload\<close> gives in the concrete library.\<close>

definition normalized_upload :: uploaded where
  "normalized_upload =
     \<lparr>content = [0, 2, 2, 10, 20, 30, 40], field_name = Some ''ImageField'',
      name = Some ''a.png'', content_type = Some ''image/jpeg'', size_arg = Some 0,
      charset = None\<rparr>"

definition gray_image :: dimg where
  "gray_image = \<lparr>d_mode = ''L'', d_size = (2, 2), d_bands = [[10, 20, 30, 40]]\<rparr>"

definition palette_image :: dimg where
  "palette_image = \<lparr>d_mode = ''P'', d_size = (2, 2), d_bands = [[0, 1, 1, 0]]\<rparr>"

definition flat_image :: dimg where
  "flat_image = \<lparr>d_mode = ''L'', d_size = (3, 0), d_bands = [[]]\<rparr>"

text \<open>An RGB upload of the target size, and the buffers the alpha upload goes through.\<close>

definition rgb_upload :: uploaded where
  "rgb_upload = demo_upload ''a.png'' [1, 2, 2, 1, 2, 3, 4, 11, 12, 13, 14, 21, 22, 23, 24]"

definition rgb_image :: dimg where
  "rgb_image =
     \<lparr>d_mode = ''RGB'', d_size = (2, 2),
      d_bands = [[1, 2, 3, 4], [11, 12, 13, 14], [21, 22, 23, 24]]\<rparr>"

definition rgba_fitted :: dimg where
  "rgba_fitted =
     \<lparr>d_mode = ''RGBA'', d_size = (2, 2),
      d_bands = [[2, 3, 6, 7], [12, 13, 16, 17], [22, 23, 26, 27], [0, 255, 255, 0]]\<rparr>"

definition white_canvas :: dimg where
  "white_canvas =
     \<lparr>d_mode = ''RGB'', d_size = (2, 2),
      d_bands = [[255, 255, 255, 255], [255, 255, 255, 255], [255, 255, 255, 255]]\<rparr>"

definition flattened :: dimg where
  "flattened =
     \<lparr>d_mode = ''RGB'', d_size = (2, 2),
      d_bands = [[255, 3, 6, 255], [255, 13, 16, 255], [255, 23, 26, 255]]\<rparr>"

text \<open>A profile image that was never set.\<close>

definition unset_upload :: uploaded where
  "unset_upload =
     \<lparr>content = [], field_name = None, name = None, content_type = None,
      size_arg = None, charset = None\<rparr>"

text \<open>The concrete library on a storage backend that cannot be reached.\<close>

definition unreachable_env :: "(dimg, nat list, profile list) env" where
  "unreachable_env = (demo_env [])\<lparr>storage_exists := (\<lambda>p. Inl (Raised ''OSError''))\<rparr>"

subsection \<open>Notions the claims use\<close>

text \<open>The buffers handed to the encoder in a run: the arguments of \<open>Image.save\<close>.\<close>

fun saved_buffer :: "('img, 'band) call \<Rightarrow> 'img option" where
  "saved_buffer (Call_save im fmt quality) = Some im"
| "saved_buffer _ = None"

definition encoded :: "('img, 'band) call list \<Rightarrow> 'img list" where
  "encoded t = List.map_filter saved_buffer t"

text \<open>
  What Pillow documents of the three calls that produce a buffer: \<open>ImageOps.fit\<close> returns
  the requested size, \<open>Image.new\<close> the requested mode and size, and \<open>paste\<close> changes the
  pixels of the canvas, not its mode or size.
\<close>

definition pillow_contract :: "('img, 'band, 'db) env \<Rightarrow> bool" where
  "pillow_contract env \<longleftrightarrow>
     (\<forall>im sz method centering out.
        ImageOps_fit env im sz method centering = Inr out \<longrightarrow> Image_size env out = sz) \<and>
     (\<forall>m sz c out.
        Image_new env m sz c = Inr out \<longrightarrow> Image_mode env out = m \<and> Image_size env out = sz) \<and>
     (\<forall>canvas im alpha out.
        Image_paste env canvas im alpha = Inr out \<longrightarrow>
          Image_mode env out = Image_mode env canvas \<and> Image_size env out = Image_size env canvas)"

text \<open>The placeholder both URL properties fall back to.\<close>

definition placeholder :: string where
  "placeholder = ''/static/img/no_image_md.png''"

subsection \<open>The pipeline as a relation\<close>

text \<open>
  Lines 149-156 as a relation: from the fitted buffer to the buffer that is encoded,
  with the calls made in between.  A buffer of mode \<open>L\<close> or \<open>RGB\<close> is encoded as it is;
  any other is pasted onto a new canvas, with band 3 of its \<open>split()\<close> as the mask.
\<close>

definition flattens ::
  "('img, 'band, 'db) env \<Rightarrow> settings \<Rightarrow> 'img \<Rightarrow> ('img, 'band) call list \<Rightarrow> 'img \<Rightarrow> bool" where
  "flattens env st fitted mid out \<longleftrightarrow>
     (Image_mode env fitted \<in> set [''L'', ''RGB''] \<and> mid = [] \<and> out = fitted) \<or>
     (Image_mode env fitted \<notin> set [''L'', ''RGB''] \<and>
      (\<exists>bg bands.
         Image_new env ''RGB'' (SIZE st) (WHITE_BG st) = Inr bg \<and>
         Image_split env fitted = Inr bands \<and> 3 < length bands \<and>
         Image_paste env bg fitted (bands ! 3) = Inr out \<and>
         mid = [Call_new ''RGB'' (SIZE st) (WHITE_BG st), Call_split fitted,
                Call_paste bg fitted (bands ! 3)]))"

text \<open>
  Lines 138-169 as a relation: a run of the whole pipeline in which no call raises,
  with its calls \<open>t\<close> and the profile \<open>self'\<close> it leaves.  Lemma \<open>resize_iff\<close> below
  shows that these are exactly the runs of \<open>resize_profile_image\<close> that return.
\<close>

definition normalizes ::
  "('img, 'band, 'db) env \<Rightarrow> settings \<Rightarrow> profile \<Rightarrow> ('img, 'band) call list \<Rightarrow> profile \<Rightarrow> bool" where
  "normalizes env st self t self' \<longleftrightarrow>
     (\<exists>opened fitted mid out bs pos f.
        Image_open env (profile_image self) = Inr opened \<and>
        ImageOps_fit env opened (SIZE st) ANTIALIAS (1/2, 1/2) = Inr fitted \<and>
        flattens env st fitted mid out \<and>
        Image_save env out ''JPEG'' 90 = Inr bs \<and>
        Image_tell env out = Inr pos \<and>
        InMemoryUploadedFile env bs ''ImageField'' (name (profile_image self))
          ''image/jpeg'' pos = Inr f \<and>
        self' = self\<lparr>profile_image := f\<rparr> \<and>
        t = [Call_open (profile_image self), Call_fit opened (SIZE st) ANTIALIAS (1/2, 1/2)]
            @ mid @
            [Call_save out ''JPEG'' 90, Call_tell out,
             Call_InMemoryUploadedFile bs ''ImageField'' (name (profile_image self))
               ''image/jpeg'' pos])"

subsection \<open>The fit on pixel buffers, as the specification describes it\<close>

text \<open>
  Modelled from the spec: the crop of \<open>ImageOps.fit\<close> (not among the sources) on one
  band of a resized buffer of width \<open>rw\<close>: the rows \<open>oy .. oy + th - 1\<close>, of each the pixels
  \<open>ox .. ox + tw - 1\<close> (section 4.2, step 3).
\<close>

definition crop_band :: "nat \<Rightarrow> nat \<times> nat \<Rightarrow> dims \<Rightarrow> nat list \<Rightarrow> nat list" where
  "crop_band rw origin target b =
     concat (map (\<lambda>y. take (fst target) (drop ((snd origin + y) * rw + fst origin) b))
                 [0..<snd target])"

text \<open>
  Modelled from the spec: \<open>ImageOps.fit\<close> (not among the sources) as section 4.2, steps 1
  to 3, describes it: every band is resized to \<open>round(w*s)\<close> by \<open>round(h*s)\<close> by the
  resampling filter \<open>R\<close> (which the specification does not define further) and cropped
  at the origin \<open>((resized_w - tw)/2, (resized_h - th)/2)\<close> to \<open>(tw, th)\<close>; the mode is
  kept.  The specification does not say which pixel an origin of a half stands for: it
  is rounded down here.
\<close>

definition spec_fit ::
  "(resample \<Rightarrow> dims \<Rightarrow> dims \<Rightarrow> nat list \<Rightarrow> nat list) \<Rightarrow> dimg \<Rightarrow> dims \<Rightarrow> resample \<Rightarrow> dimg" where
  "spec_fit R im target method =
     (let rw = nat (fst (fit_resized (d_size im) target));
          rh = nat (snd (fit_resized (d_size im) target));
          ox = nat \<lfloor>fst (fit_crop_origin (d_size im) target)\<rfloor>;
          oy = nat \<lfloor>snd (fit_crop_origin (d_size im) target)\<rfloor>
      in \<lparr>d_mode = d_mode im, d_size = target,
          d_bands = map (\<lambda>b. crop_band rw (ox, oy) target (R method (d_size im) (rw, rh) b))
                        (d_bands im)\<rparr>)"

text \<open>
  A resampling filter to run \<open>spec_fit\<close> with: nearest neighbour, whatever the method
  asked for.
\<close>

definition nearest :: "resample \<Rightarrow> dims \<Rightarrow> dims \<Rightarrow> nat list \<Rightarrow> nat list" where
  "nearest method src dst b =
     map (\<lambda>i. b ! (((i div fst dst) * snd src div snd dst) * fst src
                    + (i mod fst dst) * fst src div fst dst))
         [0..<fst dst * snd dst]"

text \<open>The concrete library with the fit of the specification in place of its own.\<close>

definition spec_env :: "(dimg, nat list, profile list) env" where
  "spec_env = (demo_env [])\<lparr>ImageOps_fit :=
                 (\<lambda>im target method centering. Inr (spec_fit nearest im target method))\<rparr>"

text \<open>The buffer that \<open>rgba_upload\<close> decodes to: 4 by 2, four bands.\<close>

definition rgba_image :: dimg where
  "rgba_image =
     \<lparr>d_mode = ''RGBA'', d_size = (4, 2),
      d_bands = [[1, 2, 3, 4, 5, 6, 7, 8], [11, 12, 13, 14, 15, 16, 17, 18],
                 [21, 22, 23, 24, 25, 26, 27, 28], [0, 0, 255, 0, 0, 255, 0, 0]]\<rparr>"

section \<open>Lemmas about runs\<close>

lemma and_then_Inr_iff:
  "and_then m f = (t, Inr y) \<longleftrightarrow>
     (\<exists>t1 x t2. m = (t1, Inr x) \<and> f x = (t2, Inr y) \<and> t = t1 @ t2)"
  by (cases m; cases "snd m") (auto simp: and_then_def split: prod.splits)

lemma and_then_Inl_iff:
  "and_then m f = (t, Inl e) \<longleftrightarrow>
     m = (t, Inl e) \<or> (\<exists>t1 x t2. m = (t1, Inr x) \<and> f x = (t2, Inl e) \<and> t = t1 @ t2)"
  by (cases m; cases "snd m") (auto simp: and_then_def split: prod.splits)

lemma call_eq_iff: "call c r = (t, r') \<longleftrightarrow> t = [c] \<and> r = r'"
  by (auto simp: call_def)

lemma ret_eq_iff: "ret x = (t, r) \<longleftrightarrow> t = [] \<and> r = Inr x"
  by (auto simp: ret_def)

lemma raise_eq_iff: "raise e = (t, r) \<longleftrightarrow> t = [] \<and> r = Inl e"
  by (auto simp: raise_def)

lemma index_Inr_iff: "index xs i = (t, Inr y) \<longleftrightarrow> t = [] \<and> i < length xs \<and> y = xs ! i"
  by (auto simp: index_def ret_def raise_def)

lemma index_Inl_iff: "index xs i = (t, Inl e) \<longleftrightarrow> t = [] \<and> \<not> i < length xs \<and> e = IndexError"
  by (auto simp: index_def ret_def raise_def)

lemma and_then_call_InrE:
  assumes "and_then (call c r) f = (t, Inr y)"
  obtains x t' where "r = Inr x" and "f x = (t', Inr y)" and "t = c # t'"
  using assms by (auto simp: and_then_Inr_iff call_eq_iff)

lemma and_then_InrE:
  assumes "and_then m f = (t, Inr y)"
  obtains t1 x t2 where "m = (t1, Inr x)" and "f x = (t2, Inr y)" and "t = t1 @ t2"
  using assms by (auto simp: and_then_Inr_iff)

text \<open>The flattening step of a run that does not raise.\<close>

lemma flatten_success:
  assumes "(if Image_mode env fitted \<notin> set [''L'', ''RGB''] then
          and_then (call (Call_new ''RGB'' sz bgc) (Image_new env ''RGB'' sz bgc))
            (\<lambda>white_bg_img.
          and_then (call (Call_split fitted) (Image_split env fitted))
            (\<lambda>bands.
          and_then (index bands 3)
            (\<lambda>mask.
          call (Call_paste white_bg_img fitted mask)
            (Image_paste env white_bg_img fitted mask))))
        else ret fitted) = (mid, Inr out)"
  shows "(Image_mode env fitted \<in> set [''L'', ''RGB''] \<and> mid = [] \<and> out = fitted) \<or>
      (Image_mode env fitted \<notin> set [''L'', ''RGB''] \<and>
       (\<exists>bg bands. Image_new env ''RGB'' sz bgc = Inr bg \<and>
          Image_split env fitted = Inr bands \<and> 3 < length bands \<and>
          Image_paste env bg fitted (bands ! 3) = Inr out \<and>
          mid = [Call_new ''RGB'' sz bgc, Call_split fitted,
                 Call_paste bg fitted (bands ! 3)]))"
proof (cases "Image_mode env fitted \<notin> set [''L'', ''RGB'']")
  case False
  with assms show ?thesis by (auto simp: ret_eq_iff split: if_splits)
next
  case True
  from assms have run: "and_then (call (Call_new ''RGB'' sz bgc) (Image_new env ''RGB'' sz bgc))
            (\<lambda>white_bg_img.
          and_then (call (Call_split fitted) (Image_split env fitted))
            (\<lambda>bands.
          and_then (index bands 3)
            (\<lambda>mask.
          call (Call_paste white_bg_img fitted mask)
            (Image_paste env white_bg_img fitted mask)))) = (mid, Inr out)"
    unfolding if_P[OF True] .
  from run obtain bg t1 where bg: "Image_new env ''RGB'' sz bgc = Inr bg"
    and r1: "and_then (call (Call_split fitted) (Image_split env fitted))
            (\<lambda>bands.
          and_then (index bands 3)
            (\<lambda>mask.
          call (Call_paste bg fitted mask)
            (Image_paste env bg fitted mask))) = (t1, Inr out)"
    and m1: "mid = Call_new ''RGB'' sz bgc # t1"
    by (rule and_then_call_InrE)
  from r1 obtain bands t2 where bands: "Image_split env fitted = Inr bands"
    and r2: "and_then (index bands 3)
            (\<lambda>mask.
          call (Call_paste bg fitted mask)
            (Image_paste env bg fitted mask)) = (t2, Inr out)"
    and m2: "t1 = Call_split fitted # t2"
    by (rule and_then_call_InrE)
  from r2 have "3 < length bands \<and> Image_paste env bg fitted (bands ! 3) = Inr out
      \<and> t2 = [Call_paste bg fitted (bands ! 3)]"
    by (auto simp: and_then_Inr_iff index_Inr_iff call_eq_iff)
  with True bg bands m1 m2 show ?thesis by simp
qed

lemma resize_success:
  assumes "resize_profile_image env st self = (t, Inr self')"
  obtains opened fitted mid out bs pos f where
     "Image_open env (profile_image self) = Inr opened"
     "ImageOps_fit env opened (SIZE st) ANTIALIAS (1/2, 1/2) = Inr fitted"
     "Image_save env out ''JPEG'' 90 = Inr bs"
     "Image_tell env out = Inr pos"
     "InMemoryUploadedFile env bs ''ImageField'' (name (profile_image self)) ''image/jpeg'' pos = Inr f"
     "self' = self\<lparr>profile_image := f\<rparr>"
     "t = [Call_open (profile_image self), Call_fit opened (SIZE st) ANTIALIAS (1/2, 1/2)] @ mid @
         [Call_save out ''JPEG'' 90, Call_tell out,
          Call_InMemoryUploadedFile bs ''ImageField'' (name (profile_image self)) ''image/jpeg'' pos]"
     "(Image_mode env fitted \<in> set [''L'', ''RGB''] \<and> mid = [] \<and> out = fitted) \<or>
      (Image_mode env fitted \<notin> set [''L'', ''RGB''] \<and>
       (\<exists>bg bands. Image_new env ''RGB'' (SIZE st) (WHITE_BG st) = Inr bg \<and>
          Image_split env fitted = Inr bands \<and> 3 < length bands \<and>
          Image_paste env bg fitted (bands ! 3) = Inr out \<and>
          mid = [Call_new ''RGB'' (SIZE st) (WHITE_BG st), Call_split fitted,
                 Call_paste bg fitted (bands ! 3)]))"
proof -
  from assms[unfolded resize_profile_image_def]
  obtain opened fitted mid out bs pos f t1 t2 t3 t4 t5 t6 t7 t8 t9 t10 t11 where
    c1: "call (Call_open (profile_image self)) (Image_open env (profile_image self)) = (t1, Inr opened)"
    and c2: "call (Call_fit opened (SIZE st) ANTIALIAS (1/2, 1/2))
                 (ImageOps_fit env opened (SIZE st) ANTIALIAS (1/2, 1/2)) = (t3, Inr fitted)"
    and c3: "(if Image_mode env fitted \<notin> set [''L'', ''RGB''] then
          and_then (call (Call_new ''RGB'' (SIZE st) (WHITE_BG st)) (Image_new env ''RGB'' (SIZE st) (WHITE_BG st)))
            (\<lambda>white_bg_img.
          and_then (call (Call_split fitted) (Image_split env fitted))
            (\<lambda>bands.
          and_then (index bands 3)
            (\<lambda>mask.
          call (Call_paste white_bg_img fitted mask)
            (Image_paste env white_bg_img fitted mask))))
        else ret fitted) = (mid, Inr out)"
    and c4: "call (Call_save out ''JPEG'' 90) (Image_save env out ''JPEG'' 90) = (t6, Inr bs)"
    and c5: "call (Call_tell out) (Image_tell env out) = (t8, Inr pos)"
    and c6: "call (Call_InMemoryUploadedFile bs ''ImageField''
                (name (profile_image self)) ''image/jpeg'' pos)
          (InMemoryUploadedFile env bs ''ImageField''
                (name (profile_image self)) ''image/jpeg'' pos) = (t10, Inr f)"
    and c7: "ret (self\<lparr>profile_image := f\<rparr>) = (t11, Inr self')"
    and t: "t = t1 @ t2" "t2 = t3 @ t4" "t4 = mid @ t5" "t5 = t6 @ t7" "t7 = t8 @ t9" "t9 = t10 @ t11"
    by (elim and_then_InrE) blast
  have tr: "t = [Call_open (profile_image self), Call_fit opened (SIZE st) ANTIALIAS (1/2, 1/2)] @ mid @
         [Call_save out ''JPEG'' 90, Call_tell out,
          Call_InMemoryUploadedFile bs ''ImageField'' (name (profile_image self)) ''image/jpeg'' pos]"
    using c1 c2 c4 c5 c6 c7 t by (simp add: call_eq_iff ret_eq_iff)
  show thesis
  proof (rule that[OF _ _ _ _ _ _ tr flatten_success[OF c3]])
    show "Image_open env (profile_image self) = Inr opened" using c1 by (simp add: call_eq_iff)
    show "ImageOps_fit env opened (SIZE st) ANTIALIAS (1/2, 1/2) = Inr fitted" using c2 by (simp add: call_eq_iff)
    show "Image_save env out ''JPEG'' 90 = Inr bs" using c4 by (simp add: call_eq_iff)
    show "Image_tell env out = Inr pos" using c5 by (simp add: call_eq_iff)
    show "InMemoryUploadedFile env bs ''ImageField'' (name (profile_image self)) ''image/jpeg'' pos = Inr f"
      using c6 by (simp add: call_eq_iff)
    show "self' = self\<lparr>profile_image := f\<rparr>" using c7 by (simp add: ret_eq_iff)
  qed
qed

lemma and_then_call_Inr:
  "r = Inr x \<Longrightarrow> and_then (call c r) f = (c # fst (f x), snd (f x))"
  by (simp add: and_then_def call_def split: prod.splits)

lemma and_then_call_Inl:
  "r = Inl e \<Longrightarrow> and_then (call c r) f = ([c], Inl e)"
  by (simp add: and_then_def call_def)

lemma and_then_ret: "and_then (ret x) f = f x"
  by (simp add: and_then_def ret_def split: prod.splits)

lemma and_then_raise: "and_then (raise e) f = ([], Inl e)"
  by (simp add: and_then_def raise_def)

lemma fst_and_then_call:
  "fst (and_then (call c r) f) = c # (case r of Inl e \<Rightarrow> [] | Inr x \<Rightarrow> fst (f x))"
  by (cases r) (simp_all add: and_then_call_Inr and_then_call_Inl)

lemma resize_no_super_save:
  "Call_super_save p \<notin> set (fst (resize_profile_image env st self))"
  unfolding resize_profile_image_def
  by (auto simp: and_then_def call_def ret_def raise_def index_def
           split: sum.splits prod.splits if_splits)

lemma and_then_Inl: "and_then (t, Inl e) f = (t, Inl e)"
  by (simp add: and_then_def)

lemma and_then_Inr: "and_then (t, Inr x) f = (t @ fst (f x), snd (f x))"
  by (simp add: and_then_def split: prod.splits)

lemma resize_starts_with_open:
  "\<exists>rest. fst (resize_profile_image env st self) = Call_open (profile_image self) # rest"
  unfolding resize_profile_image_def by (simp add: fst_and_then_call)

lemma resize_calls_fit:
  assumes "Image_open env (profile_image self) = Inr opened"
  shows "\<exists>rest. fst (resize_profile_image env st self) =
            Call_open (profile_image self)
              # Call_fit opened (SIZE st) ANTIALIAS (1/2, 1/2) # rest"
  using assms unfolding resize_profile_image_def
  by (simp add: and_then_call_Inr fst_and_then_call)

lemma encoded_simps:
  "encoded [] = []"
  "encoded (Call_save im fmt q # t) = im # encoded t"
  "encoded (Call_open f # t) = encoded t"
  "encoded (Call_fit im sz m c # t) = encoded t"
  "encoded (Call_new md sz col # t) = encoded t"
  "encoded (Call_split im # t) = encoded t"
  "encoded (Call_paste cv im al # t) = encoded t"
  "encoded (Call_tell im # t) = encoded t"
  "encoded (Call_InMemoryUploadedFile bs fld n ct pos # t) = encoded t"
  by (simp_all add: encoded_def map_filter_simps)

lemma fit_scale_ge:
  assumes "0 < w" "0 < h"
  shows "(of_nat tw :: rat) \<le> of_nat w * fit_scale (w, h) (tw, th)"
    and "(of_nat th :: rat) \<le> of_nat h * fit_scale (w, h) (tw, th)"
proof -
  have "(of_nat tw :: rat) = of_nat w * (of_nat tw / of_nat w)"
    using assms by simp
  also have "\<dots> \<le> of_nat w * fit_scale (w, h) (tw, th)"
    unfolding fit_scale_def by (intro mult_left_mono) simp_all
  finally show "(of_nat tw :: rat) \<le> of_nat w * fit_scale (w, h) (tw, th)" .
  have "(of_nat th :: rat) = of_nat h * (of_nat th / of_nat h)"
    using assms by simp
  also have "\<dots> \<le> of_nat h * fit_scale (w, h) (tw, th)"
    unfolding fit_scale_def by (intro mult_left_mono) simp_all
  finally show "(of_nat th :: rat) \<le> of_nat h * fit_scale (w, h) (tw, th)" .
qed

lemma fit_resized_ge:
  assumes "0 < w" "0 < h"
  shows "int tw \<le> fst (fit_resized (w, h) (tw, th))"
    and "int th \<le> snd (fit_resized (w, h) (tw, th))"
proof -
  have "round (of_nat tw :: rat) \<le> round (of_nat w * fit_scale (w, h) (tw, th))"
    by (rule round_mono) (rule fit_scale_ge[OF assms])
  then show "int tw \<le> fst (fit_resized (w, h) (tw, th))"
    by (simp add: fit_resized_def)
  have "round (of_nat th :: rat) \<le> round (of_nat h * fit_scale (w, h) (tw, th))"
    by (rule round_mono) (rule fit_scale_ge[OF assms])
  then show "int th \<le> snd (fit_resized (w, h) (tw, th))"
    by (simp add: fit_resized_def)
qed

lemma fit_example:
  "fit_scale (4000, 2000) (500, 500) = 1/4"
  "fit_resized (4000, 2000) (500, 500) = (1000, 500)"
  "fit_crop_origin (4000, 2000) (500, 500) = (250, 0)"
  "fit_crop_box (4000, 2000) (500, 500) = (250, 0, 750, 500)"
  by (simp_all add: fit_scale_def fit_resized_def fit_crop_origin_def fit_crop_box_def)

lemma fit_same_size:
  assumes "0 < w" "0 < h"
  shows "fit_scale (w, h) (w, h) = 1"
    and "fit_resized (w, h) (w, h) = (int w, int h)"
    and "fit_crop_origin (w, h) (w, h) = (0, 0)"
    and "fit_crop_box (w, h) (w, h) = (0, 0, of_nat w, of_nat h)"
proof -
  show s: "fit_scale (w, h) (w, h) = 1"
    using assms by (simp add: fit_scale_def)
  show r: "fit_resized (w, h) (w, h) = (int w, int h)"
    by (simp add: fit_resized_def s)
  show o: "fit_crop_origin (w, h) (w, h) = (0, 0)"
    by (simp add: fit_crop_origin_def r)
  show "fit_crop_box (w, h) (w, h) = (0, 0, of_nat w, of_nat h)"
    by (simp add: fit_crop_box_def o)
qed

lemma rgb_is_not_flattened:
  assumes "Image_open env (profile_image self) = Inr opened"
    and "ImageOps_fit env opened (SIZE st) ANTIALIAS (1/2, 1/2) = Inr fitted"
    and "Image_mode env fitted = ''RGB''"
  shows "\<exists>rest. fst (resize_profile_image env st self) =
           [Call_open (profile_image self),
            Call_fit opened (SIZE st) ANTIALIAS (1/2, 1/2),
            Call_save fitted ''JPEG'' 90] @ rest"
  using assms unfolding resize_profile_image_def
  by (simp add: and_then_call_Inr and_then_ret fst_and_then_call)

lemmas run_defs =
  resize_profile_image_def save_def profile_image_url_def profile_image_thumb_url_def
  and_then_def call_def ret_def raise_def index_def truthy_def os_path_join_def

lemmas demo_defs =
  demo_env_def demo_settings_def demo_profile_def demo_upload_def demo_decode_def
  demo_encode_def demo_fit_def demo_src_index_def demo_new_def demo_paste_def demo_blend_def
  demo_save_def demo_InMemoryUploadedFile_def basename_def mode_of_code_def code_of_mode_def
  gray_upload_def stored_upload_def palette_upload_def rgba_upload_def flat_upload_def
  broken_upload_def unreachable_env_def normalized_upload_def gray_image_def
  palette_image_def flat_image_def rgb_upload_def rgb_image_def rgba_fitted_def
  white_canvas_def flattened_def unset_upload_def

lemma gray_run:
  "resize_profile_image (demo_env []) demo_settings (demo_profile gray_upload) =
     ([Call_open gray_upload,
       Call_fit gray_image (2, 2) ANTIALIAS (1/2, 1/2),
       Call_save gray_image ''JPEG'' 90,
       Call_tell gray_image,
       Call_InMemoryUploadedFile [0, 2, 2, 10, 20, 30, 40] ''ImageField'' (Some ''a.png'')
         ''image/jpeg'' 0],
      Inr (demo_profile normalized_upload))"
  by code_simp

lemma flat_run:
  "resize_profile_image (demo_env []) demo_settings (demo_profile flat_upload) =
     ([Call_open flat_upload, Call_fit flat_image (2, 2) ANTIALIAS (1/2, 1/2)],
      Inl (Raised ''ZeroDivisionError''))"
  by (simp add: run_defs demo_defs)

lemma broken_run:
  "resize_profile_image (demo_env []) demo_settings (demo_profile broken_upload) =
     ([Call_open broken_upload], Inl (Raised ''UnidentifiedImageError''))"
  by (simp add: run_defs demo_defs)

lemma palette_run:
  "resize_profile_image (demo_env []) demo_settings (demo_profile palette_upload) =
     ([Call_open palette_upload,
       Call_fit palette_image (2, 2) ANTIALIAS (1/2, 1/2),
       Call_new ''RGB'' (2, 2) (255, 255, 255),
       Call_split palette_image],
      Inl IndexError)"
  by code_simp

lemma stored_run:
  "resize_profile_image (demo_env []) demo_settings (demo_profile stored_upload) =
     ([Call_open stored_upload,
       Call_fit gray_image (2, 2) ANTIALIAS (1/2, 1/2),
       Call_save gray_image ''JPEG'' 90,
       Call_tell gray_image,
       Call_InMemoryUploadedFile [0, 2, 2, 10, 20, 30, 40] ''ImageField''
         (Some ''profile_uploads/a.png'') ''image/jpeg'' 0],
      Inr (demo_profile normalized_upload))"
  by code_simp

lemma normalized_run:
  "resize_profile_image (demo_env []) demo_settings (demo_profile normalized_upload) =
     ([Call_open normalized_upload,
       Call_fit gray_image (2, 2) ANTIALIAS (1/2, 1/2),
       Call_save gray_image ''JPEG'' 90,
       Call_tell gray_image,
       Call_InMemoryUploadedFile [0, 2, 2, 10, 20, 30, 40] ''ImageField'' (Some ''a.png'')
         ''image/jpeg'' 0],
      Inr (demo_profile normalized_upload))"
  by code_simp

lemma rgba_run:
  "resize_profile_image (demo_env []) demo_settings (demo_profile rgba_upload) =
     ([Call_open rgba_upload,
       Call_fit \<lparr>d_mode = ''RGBA'', d_size = (4, 2),
                 d_bands = [[1, 2, 3, 4, 5, 6, 7, 8], [11, 12, 13, 14, 15, 16, 17, 18],
                            [21, 22, 23, 24, 25, 26, 27, 28], [0, 0, 255, 0, 0, 255, 0, 0]]\<rparr>
         (2, 2) ANTIALIAS (1/2, 1/2),
       Call_new ''RGB'' (2, 2) (255, 255, 255),
       Call_split rgba_fitted,
       Call_paste white_canvas rgba_fitted [0, 255, 255, 0],
       Call_save flattened ''JPEG'' 90,
       Call_tell flattened,
       Call_InMemoryUploadedFile [1, 2, 2, 255, 3, 6, 255, 255, 13, 16, 255, 255, 23, 26, 255]
         ''ImageField'' (Some ''a.png'') ''image/jpeg'' 0],
      Inr (demo_profile
        \<lparr>content = [1, 2, 2, 255, 3, 6, 255, 255, 13, 16, 255, 255, 23, 26, 255],
         field_name = Some ''ImageField'', name = Some ''a.png'',
         content_type = Some ''image/jpeg'', size_arg = Some 0, charset = None\<rparr>))"
  by (simp add: run_defs demo_defs upt_rec)

lemma rgb_run:
  "resize_profile_image (demo_env []) demo_settings (demo_profile rgb_upload) =
     ([Call_open rgb_upload,
       Call_fit rgb_image (2, 2) ANTIALIAS (1/2, 1/2),
       Call_save rgb_image ''JPEG'' 90,
       Call_tell rgb_image,
       Call_InMemoryUploadedFile [1, 2, 2, 1, 2, 3, 4, 11, 12, 13, 14, 21, 22, 23, 24]
         ''ImageField'' (Some ''a.png'') ''image/jpeg'' 0],
      Inr (demo_profile
        \<lparr>content = [1, 2, 2, 1, 2, 3, 4, 11, 12, 13, 14, 21, 22, 23, 24],
         field_name = Some ''ImageField'', name = Some ''a.png'',
         content_type = Some ''image/jpeg'', size_arg = Some 0, charset = None\<rparr>))"
  by (simp add: run_defs demo_defs upt_rec)

lemma demo_contract: "pillow_contract (demo_env stored)"
  by (auto simp: pillow_contract_def demo_env_def demo_fit_def demo_new_def demo_paste_def
           split: if_splits)

lemma demo_Model_save: "Model_save (demo_env stored) p db = (Inr p, p # db)"
  by (simp add: demo_env_def)

lemma demo_url_unset:
  "profile_image_url (demo_env []) demo_settings (demo_profile unset_upload)
     = ([], Inr ''/static/img/no_image_md.png'')"
  by (simp add: run_defs demo_defs unset_upload_def)

lemma demo_url_missing:
  "profile_image_url (demo_env []) demo_settings (demo_profile gray_upload)
     = ([Call_exists ''/srv/media/a.png''], Inr ''/static/img/no_image_md.png'')"
  by (simp add: run_defs demo_defs)

lemma demo_url_present:
  "profile_image_url (demo_env [''/srv/media/a.png'']) demo_settings (demo_profile gray_upload)
     = ([Call_exists ''/srv/media/a.png'', Call_url gray_upload], Inr ''/media/a.png'')"
  by (simp add: run_defs demo_defs)

lemma demo_thumb_unset:
  "profile_image_thumb_url (demo_env []) demo_settings (demo_profile unset_upload)
     = ([Call_thumb_bool unset_upload], Inr ''/static/img/no_image_md.png'')"
  by (simp add: run_defs demo_defs unset_upload_def)

lemma demo_thumb_missing:
  "profile_image_thumb_url (demo_env []) demo_settings (demo_profile gray_upload)
     = ([Call_thumb_bool gray_upload, Call_thumb_name gray_upload,
         Call_exists ''/srv/media/CACHE/a.png''], Inr ''/static/img/no_image_md.png'')"
  by (simp add: run_defs demo_defs)

lemma unreachable_url:
  "profile_image_url unreachable_env demo_settings (demo_profile gray_upload)
     = ([Call_exists ''/srv/media/a.png''], Inl (Raised ''OSError''))"
  by (simp add: run_defs demo_defs)

subsection \<open>The pipeline relation and the method agree\<close>

lemma resize_normalizes:
  assumes "resize_profile_image env st self = (t, Inr self')"
  shows "normalizes env st self t self'"
proof -
  from assms obtain opened fitted mid out bs pos f where
     "Image_open env (profile_image self) = Inr opened"
     "ImageOps_fit env opened (SIZE st) ANTIALIAS (1/2, 1/2) = Inr fitted"
     "Image_save env out ''JPEG'' 90 = Inr bs"
     "Image_tell env out = Inr pos"
     "InMemoryUploadedFile env bs ''ImageField'' (name (profile_image self)) ''image/jpeg'' pos = Inr f"
     "self' = self\<lparr>profile_image := f\<rparr>"
     "t = [Call_open (profile_image self), Call_fit opened (SIZE st) ANTIALIAS (1/2, 1/2)] @ mid @
         [Call_save out ''JPEG'' 90, Call_tell out,
          Call_InMemoryUploadedFile bs ''ImageField'' (name (profile_image self)) ''image/jpeg'' pos]"
     "flattens env st fitted mid out"
    unfolding flattens_def by (rule resize_success)
  then show ?thesis unfolding normalizes_def by blast
qed

lemma flatten_runs:
  assumes "flattens env st fitted mid out"
  shows "(if Image_mode env fitted \<notin> set [''L'', ''RGB''] then
          and_then (call (Call_new ''RGB'' (SIZE st) (WHITE_BG st))
                      (Image_new env ''RGB'' (SIZE st) (WHITE_BG st)))
            (\<lambda>white_bg_img.
          and_then (call (Call_split fitted) (Image_split env fitted))
            (\<lambda>bands.
          and_then (index bands 3)
            (\<lambda>mask.
          call (Call_paste white_bg_img fitted mask)
            (Image_paste env white_bg_img fitted mask))))
        else ret fitted) = (mid, Inr out)"
  using assms unfolding flattens_def
  by (auto simp: and_then_def index_def ret_def raise_def call_def)

lemma normalizes_resize:
  assumes "normalizes env st self t self'"
  shows "resize_profile_image env st self = (t, Inr self')"
proof -
  from assms obtain opened fitted mid out bs pos f where
    1: "Image_open env (profile_image self) = Inr opened"
    and 2: "ImageOps_fit env opened (SIZE st) ANTIALIAS (1/2, 1/2) = Inr fitted"
    and 3: "flattens env st fitted mid out"
    and 4: "Image_save env out ''JPEG'' 90 = Inr bs"
    and 5: "Image_tell env out = Inr pos"
    and 6: "InMemoryUploadedFile env bs ''ImageField'' (name (profile_image self))
          ''image/jpeg'' pos = Inr f"
    and s: "self' = self\<lparr>profile_image := f\<rparr>"
    and t: "t = [Call_open (profile_image self), Call_fit opened (SIZE st) ANTIALIAS (1/2, 1/2)]
            @ mid @
            [Call_save out ''JPEG'' 90, Call_tell out,
             Call_InMemoryUploadedFile bs ''ImageField'' (name (profile_image self))
               ''image/jpeg'' pos]"
    unfolding normalizes_def by blast
  show ?thesis
    unfolding resize_profile_image_def
    by (simp only: and_then_call_Inr[OF 1] and_then_call_Inr[OF 2] flatten_runs[OF 3]
          and_then_Inr and_then_call_Inr[OF 4] and_then_call_Inr[OF 5]
          and_then_call_Inr[OF 6] fst_conv snd_conv s t) (simp add: ret_def)
qed

lemma resize_iff:
  "resize_profile_image env st self = (t, Inr self') \<longleftrightarrow> normalizes env st self t self'"
  using resize_normalizes normalizes_resize by blast

subsection \<open>The crop of a band\<close>

lemma length_concat_uniform:
  "(\<And>y. y < n \<Longrightarrow> length (f y) = k) \<Longrightarrow> length (concat (map f [0..<n])) = n * k"
  by (induction n) simp_all

lemma nth_concat_uniform:
  "(\<And>y. y < n \<Longrightarrow> length (f y) = k) \<Longrightarrow> y < n \<Longrightarrow> x < k \<Longrightarrow>
     concat (map f [0..<n]) ! (y * k + x) = f y ! x"
proof (induction n)
  case 0
  then show ?case by simp
next
  case (Suc n)
  have len: "length (concat (map f [0..<n])) = n * k"
    using Suc.prems(1) by (intro length_concat_uniform) simp
  show ?case
  proof (cases "y < n")
    case True
    then have "y * k + x < n * k"
    proof -
      from True have "Suc y \<le> n" by simp
      then have "Suc y * k \<le> n * k" by (rule mult_le_mono1)
      with Suc.prems(3) show ?thesis by simp
    qed
    with len Suc True show ?thesis by (simp add: nth_append)
  next
    case False
    with Suc.prems(2) have "y = n" by simp
    with len Suc.prems(3) show ?thesis by (simp add: nth_append)
  qed
qed

lemma crop_row_length:
  assumes "ox + tw \<le> rw" "oy + th \<le> rh" "length b = rw * rh" "y < th"
  shows "length (take tw (drop ((oy + y) * rw + ox) b)) = tw"
proof -
  from assms(2,4) have "Suc (oy + y) \<le> rh" by simp
  then have "Suc (oy + y) * rw \<le> rh * rw" by (rule mult_le_mono1)
  with assms(1) have "(oy + y) * rw + ox + tw \<le> rw * rh" by (simp add: mult.commute)
  with assms(3) show ?thesis by simp
qed

lemma length_crop_band:
  assumes "ox + tw \<le> rw" "oy + th \<le> rh" "length b = rw * rh"
  shows "length (crop_band rw (ox, oy) (tw, th) b) = tw * th"
  unfolding crop_band_def fst_conv snd_conv
  using length_concat_uniform[of th "\<lambda>y. take tw (drop ((oy + y) * rw + ox) b)" tw]
    crop_row_length[OF assms]
  by (simp add: mult.commute)

lemma nth_crop_band:
  assumes "ox + tw \<le> rw" "oy + th \<le> rh" "length b = rw * rh" "x < tw" "y < th"
  shows "crop_band rw (ox, oy) (tw, th) b ! (y * tw + x) = b ! ((oy + y) * rw + ox + x)"
proof -
  have "crop_band rw (ox, oy) (tw, th) b ! (y * tw + x)
          = take tw (drop ((oy + y) * rw + ox) b) ! x"
    unfolding crop_band_def fst_conv snd_conv
    by (rule nth_concat_uniform) (use assms crop_row_length[OF assms(1,2,3)] in simp_all)
  also have "\<dots> = b ! ((oy + y) * rw + ox + x)"
  proof -
    from assms(2,5) have "Suc (oy + y) \<le> rh" by simp
    then have "Suc (oy + y) * rw \<le> rh * rw" by (rule mult_le_mono1)
    with assms(1,4) have "(oy + y) * rw + ox + x < rw * rh" by (simp add: mult.commute)
    with assms(3,4) show ?thesis by simp
  qed
  finally show ?thesis .
qed

lemma crop_band_whole:
  assumes "length b = w * h"
  shows "crop_band w (0, 0) (w, h) b = b"
proof (rule nth_equalityI)
  show len: "length (crop_band w (0, 0) (w, h) b) = length b"
    using length_crop_band[of 0 w w 0 h h b] assms by simp
  fix i assume "i < length (crop_band w (0, 0) (w, h) b)"
  with len assms have i: "i < w * h" by simp
  then have w: "0 < w" by (cases w) simp_all
  from i have y: "i div w < h" by (simp add: less_mult_imp_div_less mult.commute)
  from w have x: "i mod w < w" by simp
  have "crop_band w (0, 0) (w, h) b ! ((i div w) * w + i mod w)
          = b ! ((0 + i div w) * w + 0 + i mod w)"
    by (rule nth_crop_band) (use assms x y in simp_all)
  then show "crop_band w (0, 0) (w, h) b ! i = b ! i" by simp
qed

lemma fit_crop_inside:
  assumes "0 < w" "0 < h"
  shows "nat \<lfloor>fst (fit_crop_origin (w, h) (tw, th))\<rfloor> + tw
           \<le> nat (fst (fit_resized (w, h) (tw, th)))"
    and "nat \<lfloor>snd (fit_crop_origin (w, h) (tw, th))\<rfloor> + th
           \<le> nat (snd (fit_resized (w, h) (tw, th)))"
    and "2 * nat \<lfloor>fst (fit_crop_origin (w, h) (tw, th))\<rfloor>
           \<le> nat (fst (fit_resized (w, h) (tw, th))) - tw"
    and "nat (fst (fit_resized (w, h) (tw, th))) - tw
           \<le> 2 * nat \<lfloor>fst (fit_crop_origin (w, h) (tw, th))\<rfloor> + 1"
    and "2 * nat \<lfloor>snd (fit_crop_origin (w, h) (tw, th))\<rfloor>
           \<le> nat (snd (fit_resized (w, h) (tw, th))) - th"
    and "nat (snd (fit_resized (w, h) (tw, th))) - th
           \<le> 2 * nat \<lfloor>snd (fit_crop_origin (w, h) (tw, th))\<rfloor> + 1"
proof -
  let ?rw = "fst (fit_resized (w, h) (tw, th))" and ?rh = "snd (fit_resized (w, h) (tw, th))"
  have ge: "int tw \<le> ?rw" "int th \<le> ?rh"
    using fit_resized_ge[OF assms] by simp_all
  have ox: "\<lfloor>fst (fit_crop_origin (w, h) (tw, th))\<rfloor> = (?rw - int tw) div 2"
  proof -
    have "fst (fit_crop_origin (w, h) (tw, th)) = of_int (?rw - int tw) / of_int 2"
      by (simp add: fit_crop_origin_def)
    then show ?thesis by (simp only: floor_divide_of_int_eq)
  qed
  have oy: "\<lfloor>snd (fit_crop_origin (w, h) (tw, th))\<rfloor> = (?rh - int th) div 2"
  proof -
    have "snd (fit_crop_origin (w, h) (tw, th)) = of_int (?rh - int th) / of_int 2"
      by (simp add: fit_crop_origin_def)
    then show ?thesis by (simp only: floor_divide_of_int_eq)
  qed
  show "nat \<lfloor>fst (fit_crop_origin (w, h) (tw, th))\<rfloor> + tw \<le> nat ?rw"
    unfolding ox using ge(1) by linarith
  show "nat \<lfloor>snd (fit_crop_origin (w, h) (tw, th))\<rfloor> + th \<le> nat ?rh"
    unfolding oy using ge(2) by linarith
  show "2 * nat \<lfloor>fst (fit_crop_origin (w, h) (tw, th))\<rfloor> \<le> nat ?rw - tw"
    unfolding ox using ge(1) by linarith
  show "nat ?rw - tw \<le> 2 * nat \<lfloor>fst (fit_crop_origin (w, h) (tw, th))\<rfloor> + 1"
    unfolding ox using ge(1) by linarith
  show "2 * nat \<lfloor>snd (fit_crop_origin (w, h) (tw, th))\<rfloor> \<le> nat ?rh - th"
    unfolding oy using ge(2) by linarith
  show "nat ?rh - th \<le> 2 * nat \<lfloor>snd (fit_crop_origin (w, h) (tw, th))\<rfloor> + 1"
    unfolding oy using ge(2) by linarith
qed

lemma spec_fit_fields:
  "d_size (spec_fit R im target method) = target"
  "d_mode (spec_fit R im target method) = d_mode im"
  "length (d_bands (spec_fit R im target method)) = length (d_bands im)"
  by (simp_all add: spec_fit_def Let_def)

lemma spec_fit_band:
  assumes "k < length (d_bands im)"
  shows "d_bands (spec_fit R im target method) ! k =
     crop_band (nat (fst (fit_resized (d_size im) target)))
       (nat \<lfloor>fst (fit_crop_origin (d_size im) target)\<rfloor>,
        nat \<lfloor>snd (fit_crop_origin (d_size im) target)\<rfloor>) target
       (R method (d_size im)
          (nat (fst (fit_resized (d_size im) target)),
           nat (snd (fit_resized (d_size im) target)))
          (d_bands im ! k))"
  using assms by (simp add: spec_fit_def Let_def)

lemma spec_fit_own_size:
  assumes "d_size im = (w, h)" "0 < w" "0 < h"
    and "\<forall>b \<in> set (d_bands im). length b = w * h \<and> R method (w, h) (w, h) b = b"
  shows "spec_fit R im (w, h) method = im"
proof -
  have g: "nat (fst (fit_resized (w, h) (w, h))) = w" "nat (snd (fit_resized (w, h) (w, h))) = h"
    "nat \<lfloor>fst (fit_crop_origin (w, h) (w, h))\<rfloor> = 0"
    "nat \<lfloor>snd (fit_crop_origin (w, h) (w, h))\<rfloor> = 0"
    using fit_same_size[OF assms(2,3)] by simp_all
  have "map (\<lambda>b. crop_band w (0, 0) (w, h) (R method (w, h) (w, h) b)) (d_bands im) = d_bands im"
    using assms(4) by (intro map_idI) (simp add: crop_band_whole)
  then have "spec_fit R im (w, h) method
               = \<lparr>d_mode = d_mode im, d_size = d_size im, d_bands = d_bands im\<rparr>"
    by (simp add: spec_fit_def Let_def assms(1) g)
  then show ?thesis by simp
qed

subsection \<open>The concrete library with the fit of the specification\<close>

lemma spec_contract: "pillow_contract spec_env"
  by (auto simp: pillow_contract_def spec_env_def demo_env_def demo_new_def demo_paste_def
        spec_fit_fields split: if_splits)

lemma encoded_of_run:
  assumes "pillow_contract env"
    and "resize_profile_image env st self = (t, Inr self')"
    and "Image_open env (profile_image self) = Inr opened"
    and "ImageOps_fit env opened (SIZE st) ANTIALIAS (1/2, 1/2) = Inr fitted"
  shows "\<exists>mid out. flattens env st fitted mid out \<and>
           encoded t = [out] \<and> Image_size env out = SIZE st \<and>
           (Image_mode env fitted \<in> set [''L'', ''RGB''] \<longrightarrow> out = fitted)"
proof -
  from resize_normalizes[OF assms(2)] assms(3,4) obtain mid out bs pos where
    fl: "flattens env st fitted mid out"
    and t: "t = [Call_open (profile_image self), Call_fit opened (SIZE st) ANTIALIAS (1/2, 1/2)]
            @ mid @
            [Call_save out ''JPEG'' 90, Call_tell out,
             Call_InMemoryUploadedFile bs ''ImageField'' (name (profile_image self))
               ''image/jpeg'' pos]"
    unfolding normalizes_def by auto
  from assms(1,4) have fsz: "Image_size env fitted = SIZE st"
    unfolding pillow_contract_def by blast
  from fl have "(Image_mode env fitted \<in> set [''L'', ''RGB''] \<and> mid = [] \<and> out = fitted) \<or>
     (Image_mode env fitted \<notin> set [''L'', ''RGB''] \<and>
      (\<exists>bg bands.
         Image_new env ''RGB'' (SIZE st) (WHITE_BG st) = Inr bg \<and>
         Image_split env fitted = Inr bands \<and> 3 < length bands \<and>
         Image_paste env bg fitted (bands ! 3) = Inr out \<and>
         mid = [Call_new ''RGB'' (SIZE st) (WHITE_BG st), Call_split fitted,
                Call_paste bg fitted (bands ! 3)]))"
    unfolding flattens_def .
  then show ?thesis
  proof (elim disjE conjE exE)
    assume "mid = []" "out = fitted"
    with t fsz have "encoded t = [out] \<and> Image_size env out = SIZE st \<and>
           (Image_mode env fitted \<in> set [''L'', ''RGB''] \<longrightarrow> out = fitted)"
      by (simp add: encoded_simps)
    with fl show ?thesis by blast
  next
    fix bg bands
    assume m: "Image_mode env fitted \<notin> set [''L'', ''RGB'']"
      and new: "Image_new env ''RGB'' (SIZE st) (WHITE_BG st) = Inr bg"
      and paste: "Image_paste env bg fitted (bands ! 3) = Inr out"
      and mid: "mid = [Call_new ''RGB'' (SIZE st) (WHITE_BG st), Call_split fitted,
                Call_paste bg fitted (bands ! 3)]"
    from assms(1) new have "Image_size env bg = SIZE st"
      unfolding pillow_contract_def by blast
    moreover from assms(1) paste have "Image_size env out = Image_size env bg"
      unfolding pillow_contract_def by blast
    ultimately have "encoded t = [out] \<and> Image_size env out = SIZE st \<and>
           (Image_mode env fitted \<in> set [''L'', ''RGB''] \<longrightarrow> out = fitted)"
      using m t mid by (simp add: encoded_simps)
    with fl show ?thesis by blast
  qed
qed

lemma geo42:
  "nat (fst (fit_resized (4, 2) (2, 2))) = 4"
  "nat (snd (fit_resized (4, 2) (2, 2))) = 2"
  "nat \<lfloor>fst (fit_crop_origin (4, 2) (2, 2))\<rfloor> = 1"
  "nat \<lfloor>snd (fit_crop_origin (4, 2) (2, 2))\<rfloor> = 0"
  by (simp_all add: fit_scale_def fit_resized_def fit_crop_origin_def)

lemma geo22:
  "nat (fst (fit_resized (2, 2) (2, 2))) = 2"
  "nat (snd (fit_resized (2, 2) (2, 2))) = 2"
  "nat \<lfloor>fst (fit_crop_origin (2, 2) (2, 2))\<rfloor> = 0"
  "nat \<lfloor>snd (fit_crop_origin (2, 2) (2, 2))\<rfloor> = 0"
  by (simp_all add: fit_scale_def fit_resized_def fit_crop_origin_def)

lemma nearest_same: "length b = 8 \<Longrightarrow> nearest method (4, 2) (4, 2) b = b"
  by (rule nth_equalityI) (simp_all add: nearest_def)

lemma spec_fit_rgba: "spec_fit nearest rgba_image (2, 2) ANTIALIAS = rgba_fitted"
  by (simp add: spec_fit_def Let_def rgba_image_def geo42 nearest_same crop_band_def
        rgba_fitted_def upt_rec)

lemma nearest_same22: "length b = 4 \<Longrightarrow> nearest method (2, 2) (2, 2) b = b"
  by (rule nth_equalityI) (simp_all add: nearest_def)

lemma spec_fit_rgb: "spec_fit nearest rgb_image (2, 2) ANTIALIAS = rgb_image"
  by (simp add: spec_fit_def Let_def rgb_image_def geo22 nearest_same22 crop_band_def upt_rec)

lemma spec_env_fields:
  "Image_open spec_env = Image_open (demo_env [])"
  "ImageOps_fit spec_env im target method centering = Inr (spec_fit nearest im target method)"
  "Image_mode spec_env = Image_mode (demo_env [])"
  "Image_size spec_env = Image_size (demo_env [])"
  "Image_new spec_env = Image_new (demo_env [])"
  "Image_split spec_env = Image_split (demo_env [])"
  "Image_paste spec_env = Image_paste (demo_env [])"
  "Image_save spec_env = Image_save (demo_env [])"
  "Image_tell spec_env = Image_tell (demo_env [])"
  "InMemoryUploadedFile spec_env = InMemoryUploadedFile (demo_env [])"
  by (simp_all add: spec_env_def)

lemma spec_rgba_run:
  "resize_profile_image spec_env demo_settings (demo_profile rgba_upload) =
     ([Call_open rgba_upload,
       Call_fit rgba_image (2, 2) ANTIALIAS (1/2, 1/2),
       Call_new ''RGB'' (2, 2) (255, 255, 255),
       Call_split rgba_fitted,
       Call_paste white_canvas rgba_fitted [0, 255, 255, 0],
       Call_save flattened ''JPEG'' 90,
       Call_tell flattened,
       Call_InMemoryUploadedFile [1, 2, 2, 255, 3, 6, 255, 255, 13, 16, 255, 255, 23, 26, 255]
         ''ImageField'' (Some ''a.png'') ''image/jpeg'' 0],
      Inr (demo_profile
        \<lparr>content = [1, 2, 2, 255, 3, 6, 255, 255, 13, 16, 255, 255, 23, 26, 255],
         field_name = Some ''ImageField'', name = Some ''a.png'',
         content_type = Some ''image/jpeg'', size_arg = Some 0, charset = None\<rparr>))"
proof (rule normalizes_resize)
  have pi: "profile_image (demo_profile rgba_upload) = rgba_upload"
    "name rgba_upload = Some ''a.png''" "SIZE demo_settings = (2, 2)"
    "WHITE_BG demo_settings = (255, 255, 255)"
    by (simp_all add: demo_defs)
  have 1: "Image_open spec_env rgba_upload = Inr rgba_image"
    by (simp add: spec_env_fields demo_defs rgba_image_def upt_rec)
  have 2: "ImageOps_fit spec_env rgba_image (2, 2) ANTIALIAS (1/2, 1/2) = Inr rgba_fitted"
    by (simp add: spec_env_fields spec_fit_rgba)
  have m: "Image_mode spec_env rgba_fitted \<notin> set [''L'', ''RGB'']"
    by (simp add: spec_env_fields demo_defs)
  have n: "Image_new spec_env ''RGB'' (2, 2) (255, 255, 255) = Inr white_canvas"
    by (simp add: spec_env_fields demo_defs upt_rec)
  have sp: "Image_split spec_env rgba_fitted
              = Inr [[2, 3, 6, 7], [12, 13, 16, 17], [22, 23, 26, 27], [0, 255, 255, 0]]"
    by (simp add: spec_env_fields demo_defs)
  have pa: "Image_paste spec_env white_canvas rgba_fitted [0, 255, 255, 0] = Inr flattened"
    by (simp add: spec_env_fields demo_defs upt_rec)
  have 3: "flattens spec_env demo_settings rgba_fitted
             [Call_new ''RGB'' (2, 2) (255, 255, 255), Call_split rgba_fitted,
              Call_paste white_canvas rgba_fitted [0, 255, 255, 0]] flattened"
    unfolding flattens_def pi using m n sp pa by auto
  have 4: "Image_save spec_env flattened ''JPEG'' 90
             = Inr [1, 2, 2, 255, 3, 6, 255, 255, 13, 16, 255, 255, 23, 26, 255]"
    by (simp add: spec_env_fields demo_defs)
  have 5: "Image_tell spec_env flattened = Inr 0"
    by (simp add: spec_env_fields demo_defs)
  have 6: "InMemoryUploadedFile spec_env
             [1, 2, 2, 255, 3, 6, 255, 255, 13, 16, 255, 255, 23, 26, 255]
             ''ImageField'' (Some ''a.png'') ''image/jpeg'' 0
           = Inr \<lparr>content = [1, 2, 2, 255, 3, 6, 255, 255, 13, 16, 255, 255, 23, 26, 255],
                  field_name = Some ''ImageField'', name = Some ''a.png'',
                  content_type = Some ''image/jpeg'', size_arg = Some 0, charset = None\<rparr>"
    by (simp add: spec_env_fields demo_defs)
  show "normalizes spec_env demo_settings (demo_profile rgba_upload)
     [Call_open rgba_upload,
       Call_fit rgba_image (2, 2) ANTIALIAS (1/2, 1/2),
       Call_new ''RGB'' (2, 2) (255, 255, 255),
       Call_split rgba_fitted,
       Call_paste white_canvas rgba_fitted [0, 255, 255, 0],
       Call_save flattened ''JPEG'' 90,
       Call_tell flattened,
       Call_InMemoryUploadedFile [1, 2, 2, 255, 3, 6, 255, 255, 13, 16, 255, 255, 23, 26, 255]
         ''ImageField'' (Some ''a.png'') ''image/jpeg'' 0]
     (demo_profile
        \<lparr>content = [1, 2, 2, 255, 3, 6, 255, 255, 13, 16, 255, 255, 23, 26, 255],
         field_name = Some ''ImageField'', name = Some ''a.png'',
         content_type = Some ''image/jpeg'', size_arg = Some 0, charset = None\<rparr>)"
    unfolding normalizes_def pi
    by (intro exI[of _ rgba_image] exI[of _ rgba_fitted]
          exI[of _ "[Call_new ''RGB'' (2, 2) (255, 255, 255), Call_split rgba_fitted,
              Call_paste white_canvas rgba_fitted [0, 255, 255, 0]]"]
          exI[of _ flattened]
          exI[of _ "[1, 2, 2, 255, 3, 6, 255, 255, 13, 16, 255, 255, 23, 26, 255]"]
          exI[of _ 0]
          exI[of _ "\<lparr>content = [1, 2, 2, 255, 3, 6, 255, 255, 13, 16, 255, 255, 23, 26, 255],
                  field_name = Some ''ImageField'', name = Some ''a.png'',
                  content_type = Some ''image/jpeg'', size_arg = Some 0, charset = None\<rparr>"])
       (use 1 2 3 4 5 6 in \<open>simp add: demo_profile_def pi\<close>)
qed

section \<open>The claims\<close>

subsection \<open>C1: the fit covers the target and crops to it\<close>

text \<open>
  C1.  Take the library's fit to be the fit of the specification, with some resampling
  filter \<open>R\<close> that returns bands of the resized dimensions.  For an upload that decodes
  to a buffer of positive dimensions \<open>(w, h)\<close> with whole bands, and a target
  \<open>SIZE = (tw, th)\<close> of positive dimensions: \<open>resize_profile_image\<close> passes the decoded
  buffer to the fit with \<open>SIZE\<close>, the antialias filter and centering \<open>(0.5, 0.5)\<close>; the
  scale is \<open>max(tw / w, th / h)\<close>; the resized dimensions \<open>rw\<close> and \<open>rh\<close> are
  \<open>round(w*s)\<close> and \<open>round(h*s)\<close> and cover the target; the crop of \<open>(tw, th)\<close> at
  \<open>(ox, oy)\<close> lies inside the resized buffer, with margins on either side that differ
  by at most one pixel; the fitted buffer has size \<open>(tw, th)\<close>, the mode and the number
  of bands of the source, and its pixel \<open>(x, y)\<close> is the pixel \<open>(ox + x, oy + y)\<close> of the
  resized band; a run that does not raise encodes exactly one buffer, of size
  \<open>(tw, th)\<close>, which the flattening step gives for the fitted buffer (the fitted buffer
  itself when its mode is \<open>L\<close> or \<open>RGB\<close>).  A 4000 by 2000 source with target
  \<open>(500, 500)\<close> has scale 1/4, is resized to 1000 by 500 and cropped at x-offset 250.
\<close>

theorem fit_covers_and_crops_to_target:
  assumes op: "Image_open env (profile_image self) = Inr opened"
    and isz: "Image_size env opened = (w, h)"
    and sz: "d_size opened = (w, h)" and w: "0 < w" and h: "0 < h"
    and wf: "\<forall>b \<in> set (d_bands opened). length b = w * h"
    and tg: "SIZE st = (tw, th)" and tw: "0 < tw" and th: "0 < th"
    and rw: "rw = nat (fst (fit_resized (w, h) (tw, th)))"
    and rh: "rh = nat (snd (fit_resized (w, h) (tw, th)))"
    and ox: "ox = nat \<lfloor>fst (fit_crop_origin (w, h) (tw, th))\<rfloor>"
    and oy: "oy = nat \<lfloor>snd (fit_crop_origin (w, h) (tw, th))\<rfloor>"
    and R: "\<forall>b. length b = w * h \<longrightarrow> length (R ANTIALIAS (w, h) (rw, rh) b) = rw * rh"
    and lib: "ImageOps_fit env opened (tw, th) ANTIALIAS (1/2, 1/2)
                = Inr (spec_fit R opened (tw, th) ANTIALIAS)"
    and contract: "pillow_contract env"
  shows "(\<exists>rest. fst (resize_profile_image env st self) =
            Call_open (profile_image self)
              # Call_fit opened (tw, th) ANTIALIAS (1/2, 1/2) # rest) \<and>
     fit_scale (w, h) (tw, th) = max (of_nat tw / of_nat w) (of_nat th / of_nat h) \<and>
     int rw = round (of_nat w * fit_scale (w, h) (tw, th)) \<and>
     int rh = round (of_nat h * fit_scale (w, h) (tw, th)) \<and>
     tw \<le> rw \<and> th \<le> rh \<and>
     ox + tw \<le> rw \<and> oy + th \<le> rh \<and>
     2 * ox \<le> rw - tw \<and> rw - tw \<le> 2 * ox + 1 \<and>
     2 * oy \<le> rh - th \<and> rh - th \<le> 2 * oy + 1 \<and>
     d_size (spec_fit R opened (tw, th) ANTIALIAS) = (tw, th) \<and>
     d_mode (spec_fit R opened (tw, th) ANTIALIAS) = d_mode opened \<and>
     length (d_bands (spec_fit R opened (tw, th) ANTIALIAS)) = length (d_bands opened) \<and>
     (\<forall>k < length (d_bands opened).
        length (d_bands (spec_fit R opened (tw, th) ANTIALIAS) ! k) = tw * th \<and>
        (\<forall>x < tw. \<forall>y < th.
           d_bands (spec_fit R opened (tw, th) ANTIALIAS) ! k ! (y * tw + x) =
           R ANTIALIAS (w, h) (rw, rh) (d_bands opened ! k) ! ((oy + y) * rw + ox + x))) \<and>
     (\<forall>t self'. resize_profile_image env st self = (t, Inr self') \<longrightarrow>
        (\<exists>mid out. flattens env st (spec_fit R opened (tw, th) ANTIALIAS) mid out \<and>
           encoded t = [out] \<and> Image_size env out = (tw, th) \<and>
           (Image_mode env (spec_fit R opened (tw, th) ANTIALIAS) \<in> set [''L'', ''RGB'']
              \<longrightarrow> out = spec_fit R opened (tw, th) ANTIALIAS))) \<and>
     fit_scale (4000, 2000) (500, 500) = 1/4 \<and>
     fit_resized (4000, 2000) (500, 500) = (1000, 500) \<and>
     fit_crop_origin (4000, 2000) (500, 500) = (250, 0)"
proof -
  let ?fitted = "spec_fit R opened (tw, th) ANTIALIAS"
  have ge: "int tw \<le> fst (fit_resized (w, h) (tw, th))"
    "int th \<le> snd (fit_resized (w, h) (tw, th))"
    using fit_resized_ge[OF w h] by simp_all
  have c1: "\<exists>rest. fst (resize_profile_image env st self) =
            Call_open (profile_image self)
              # Call_fit opened (tw, th) ANTIALIAS (1/2, 1/2) # rest"
    using resize_calls_fit[OF op, of st] tg by simp
  have c2: "fit_scale (w, h) (tw, th) = max (of_nat tw / of_nat w) (of_nat th / of_nat h)"
    by (simp add: fit_scale_def)
  have c3: "int rw = round (of_nat w * fit_scale (w, h) (tw, th))"
    "int rh = round (of_nat h * fit_scale (w, h) (tw, th))"
    using ge unfolding rw rh by (simp_all add: fit_resized_def)
  have c4: "tw \<le> rw" "th \<le> rh"
    using ge unfolding rw rh by linarith+
  have c5: "ox + tw \<le> rw" "oy + th \<le> rh"
    "2 * ox \<le> rw - tw" "rw - tw \<le> 2 * ox + 1"
    "2 * oy \<le> rh - th" "rh - th \<le> 2 * oy + 1"
    unfolding rw rh ox oy by (rule fit_crop_inside[OF w h])+
  have c6: "d_size ?fitted = (tw, th)" "d_mode ?fitted = d_mode opened"
    "length (d_bands ?fitted) = length (d_bands opened)"
    by (simp_all add: spec_fit_fields)
  have c7: "length (d_bands ?fitted ! k) = tw * th \<and>
        (\<forall>x < tw. \<forall>y < th.
           d_bands ?fitted ! k ! (y * tw + x) =
           R ANTIALIAS (w, h) (rw, rh) (d_bands opened ! k) ! ((oy + y) * rw + ox + x))"
    if k: "k < length (d_bands opened)" for k
  proof -
    let ?b = "R ANTIALIAS (w, h) (rw, rh) (d_bands opened ! k)"
    from k wf have "length (d_bands opened ! k) = w * h" by simp
    with R have len: "length ?b = rw * rh" by blast
    have band: "d_bands ?fitted ! k = crop_band rw (ox, oy) (tw, th) ?b"
      using spec_fit_band[OF k, of R "(tw, th)" ANTIALIAS]
      unfolding sz rw rh ox oy .
    have "length (crop_band rw (ox, oy) (tw, th) ?b) = tw * th"
      by (rule length_crop_band[OF c5(1,2) len])
    moreover have "crop_band rw (ox, oy) (tw, th) ?b ! (y * tw + x)
                     = ?b ! ((oy + y) * rw + ox + x)"
      if "x < tw" "y < th" for x y
      by (rule nth_crop_band[OF c5(1,2) len that])
    ultimately show ?thesis unfolding band by blast
  qed
  have c8: "\<exists>mid out. flattens env st ?fitted mid out \<and>
           encoded t = [out] \<and> Image_size env out = (tw, th) \<and>
           (Image_mode env ?fitted \<in> set [''L'', ''RGB''] \<longrightarrow> out = ?fitted)"
    if run: "resize_profile_image env st self = (t, Inr self')" for t self'
    using encoded_of_run[OF contract run op, of ?fitted] lib unfolding tg by blast
  from c1 c2 c3 c4 c5 c6 c7 c8 fit_example(1,2,3) show ?thesis
    by (intro conjI allI impI) blast+
qed

text \<open>
  The theorem on a 4 by 2 RGBA upload with target \<open>(2, 2)\<close>: resized to 4 by 2, cropped
  at x-offset 1.
\<close>

theorem fit_covers_and_crops_to_target_witness:
  "Image_open spec_env (profile_image (demo_profile rgba_upload)) = Inr rgba_image \<and>
   Image_size spec_env rgba_image = (4, 2) \<and>
   d_size rgba_image = (4, 2) \<and>
   SIZE demo_settings = (2, 2) \<and>
   nat (fst (fit_resized (4, 2) (2, 2))) = 4 \<and>
   nat (snd (fit_resized (4, 2) (2, 2))) = 2 \<and>
   nat \<lfloor>fst (fit_crop_origin (4, 2) (2, 2))\<rfloor> = 1 \<and>
   nat \<lfloor>snd (fit_crop_origin (4, 2) (2, 2))\<rfloor> = 0 \<and>
   ImageOps_fit spec_env rgba_image (2, 2) ANTIALIAS (1/2, 1/2)
     = Inr (spec_fit nearest rgba_image (2, 2) ANTIALIAS) \<and>
   pillow_contract spec_env \<and>
   spec_fit nearest rgba_image (2, 2) ANTIALIAS = rgba_fitted \<and>
   d_size (spec_fit nearest rgba_image (2, 2) ANTIALIAS) = (2, 2) \<and>
   length (d_bands (spec_fit nearest rgba_image (2, 2) ANTIALIAS) ! 0) = 2 * 2 \<and>
   d_bands (spec_fit nearest rgba_image (2, 2) ANTIALIAS) ! 0 ! (1 * 2 + 0) =
     nearest ANTIALIAS (4, 2) (4, 2) (d_bands rgba_image ! 0) ! ((0 + 1) * 4 + 1 + 0) \<and>
   snd (resize_profile_image spec_env demo_settings (demo_profile rgba_upload)) =
     Inr (demo_profile
        \<lparr>content = [1, 2, 2, 255, 3, 6, 255, 255, 13, 16, 255, 255, 23, 26, 255],
         field_name = Some ''ImageField'', name = Some ''a.png'',
         content_type = Some ''image/jpeg'', size_arg = Some 0, charset = None\<rparr>) \<and>
   (\<exists>mid out. flattens spec_env demo_settings
                  (spec_fit nearest rgba_image (2, 2) ANTIALIAS) mid out \<and>
          encoded (fst (resize_profile_image spec_env demo_settings
                          (demo_profile rgba_upload))) = [out] \<and>
          Image_size spec_env out = (2, 2))"
proof -
  have op: "Image_open spec_env (profile_image (demo_profile rgba_upload)) = Inr rgba_image"
    by (simp add: spec_env_fields demo_defs rgba_image_def upt_rec)
  have sz: "d_size rgba_image = (4, 2)" by (simp add: rgba_image_def)
  have isz: "Image_size spec_env rgba_image = (4, 2)"
    by (simp add: spec_env_fields demo_env_def rgba_image_def)
  have wf: "\<forall>b \<in> set (d_bands rgba_image). length b = 4 * 2"
    by (simp add: rgba_image_def)
  have tg: "SIZE demo_settings = (2, 2)" by (simp add: demo_settings_def)
  have R: "\<forall>b. length b = 4 * 2 \<longrightarrow> length (nearest ANTIALIAS (4, 2) (4, 2) b) = 4 * 2"
    by (simp add: nearest_def)
  have lib: "ImageOps_fit spec_env rgba_image (2, 2) ANTIALIAS (1/2, 1/2)
     = Inr (spec_fit nearest rgba_image (2, 2) ANTIALIAS)"
    by (simp add: spec_env_fields)
  have pos: "(0::nat) < 4" "(0::nat) < 2" by simp_all
  note inst = fit_covers_and_crops_to_target
    [OF op isz sz pos(1) pos(2) wf tg pos(2) pos(2) geo42(1)[symmetric] geo42(2)[symmetric]
        geo42(3)[symmetric] geo42(4)[symmetric] R lib spec_contract]
  from inst have a: "d_size (spec_fit nearest rgba_image (2, 2) ANTIALIAS) = (2, 2)"
    by (elim conjE)
  have k: "0 < length (d_bands rgba_image)" by (simp add: rgba_image_def)
  from inst have bands: "\<forall>k < length (d_bands rgba_image).
        length (d_bands (spec_fit nearest rgba_image (2, 2) ANTIALIAS) ! k) = 2 * 2 \<and>
        (\<forall>x < 2. \<forall>y < 2.
           d_bands (spec_fit nearest rgba_image (2, 2) ANTIALIAS) ! k ! (y * 2 + x) =
           nearest ANTIALIAS (4, 2) (4, 2) (d_bands rgba_image ! k) ! ((0 + y) * 4 + 1 + x))"
    by (elim conjE)
  from bands k have b: "length (d_bands (spec_fit nearest rgba_image (2, 2) ANTIALIAS) ! 0) = 2 * 2"
    by blast
  have x0: "(0::nat) < 2" and y1: "(1::nat) < 2" by simp_all
  from bands k x0 y1
  have c: "d_bands (spec_fit nearest rgba_image (2, 2) ANTIALIAS) ! 0 ! (1 * 2 + 0) =
     nearest ANTIALIAS (4, 2) (4, 2) (d_bands rgba_image ! 0) ! ((0 + 1) * 4 + 1 + 0)"
    by blast
  define t where "t = fst (resize_profile_image spec_env demo_settings (demo_profile rgba_upload))"
  have run: "resize_profile_image spec_env demo_settings (demo_profile rgba_upload) =
     (t, Inr (demo_profile
        \<lparr>content = [1, 2, 2, 255, 3, 6, 255, 255, 13, 16, 255, 255, 23, 26, 255],
         field_name = Some ''ImageField'', name = Some ''a.png'',
         content_type = Some ''image/jpeg'', size_arg = Some 0, charset = None\<rparr>))"
    unfolding t_def by (simp add: spec_rgba_run)
  from inst have enc: "\<forall>t self'.
       resize_profile_image spec_env demo_settings (demo_profile rgba_upload) = (t, Inr self') \<longrightarrow>
        (\<exists>mid out. flattens spec_env demo_settings
                      (spec_fit nearest rgba_image (2, 2) ANTIALIAS) mid out \<and>
           encoded t = [out] \<and> Image_size spec_env out = (2, 2) \<and>
           (Image_mode spec_env (spec_fit nearest rgba_image (2, 2) ANTIALIAS) \<in> set [''L'', ''RGB'']
              \<longrightarrow> out = spec_fit nearest rgba_image (2, 2) ANTIALIAS))"
    by (elim conjE)
  from enc run have d: "\<exists>mid out. flattens spec_env demo_settings
                  (spec_fit nearest rgba_image (2, 2) ANTIALIAS) mid out \<and>
          encoded t = [out] \<and> Image_size spec_env out = (2, 2)"
    by blast
  have s: "snd (resize_profile_image spec_env demo_settings (demo_profile rgba_upload)) =
     Inr (demo_profile
        \<lparr>content = [1, 2, 2, 255, 3, 6, 255, 255, 13, 16, 255, 255, 23, 26, 255],
         field_name = Some ''ImageField'', name = Some ''a.png'',
         content_type = Some ''image/jpeg'', size_arg = Some 0, charset = None\<rparr>)"
    by (simp only: run snd_conv)
  from op isz sz tg geo42 lib spec_contract spec_fit_rgba a b c s d
  show ?thesis unfolding t_def by (intro conjI)
qed

subsection \<open>C2: the band index\<close>

text \<open>
  C2 (the code departs from it).  When the fitted image is neither \<open>L\<close> nor \<open>RGB\<close> and
  \<open>split()\<close> returns fewer than four bands, \<open>split()[3]\<close> raises \<open>IndexError\<close>: the run
  ends after the calls open, fit, new and split, nothing is pasted and nothing encoded.
  A palette image (mode \<open>P\<close>, one band) is such an input.
\<close>

theorem band_index_raises_below_four_bands:
  assumes "Image_open env (profile_image self) = Inr opened"
    and "ImageOps_fit env opened (SIZE st) ANTIALIAS (1/2, 1/2) = Inr fitted"
    and "Image_mode env fitted \<notin> set [''L'', ''RGB'']"
    and "Image_new env ''RGB'' (SIZE st) (WHITE_BG st) = Inr white_bg_img"
    and "Image_split env fitted = Inr bands"
    and "length bands < 4"
  shows "resize_profile_image env st self =
     ([Call_open (profile_image self),
       Call_fit opened (SIZE st) ANTIALIAS (1/2, 1/2),
       Call_new ''RGB'' (SIZE st) (WHITE_BG st),
       Call_split fitted],
      Inl IndexError)"
  using assms unfolding resize_profile_image_def
  by (simp add: and_then_call_Inr index_def and_then_raise and_then_Inl)

theorem band_index_raises_below_four_bands_witness:
  "Image_open (demo_env []) (profile_image (demo_profile palette_upload)) = Inr palette_image \<and>
   ImageOps_fit (demo_env []) palette_image (SIZE demo_settings) ANTIALIAS (1/2, 1/2)
     = Inr palette_image \<and>
   Image_mode (demo_env []) palette_image = ''P'' \<and>
   Image_split (demo_env []) palette_image = Inr [[0, 1, 1, 0]] \<and>
   resize_profile_image (demo_env []) demo_settings (demo_profile palette_upload) =
     ([Call_open (profile_image (demo_profile palette_upload)),
       Call_fit palette_image (SIZE demo_settings) ANTIALIAS (1/2, 1/2),
       Call_new ''RGB'' (SIZE demo_settings) (WHITE_BG demo_settings),
       Call_split palette_image],
      Inl IndexError)"
proof -
  have 1: "Image_open (demo_env []) (profile_image (demo_profile palette_upload))
             = Inr palette_image"
    by (simp add: demo_defs)
  have 2: "ImageOps_fit (demo_env []) palette_image (SIZE demo_settings) ANTIALIAS (1/2, 1/2)
             = Inr palette_image"
    by (simp add: demo_defs) code_simp
  have 3: "Image_mode (demo_env []) palette_image \<notin> set [''L'', ''RGB'']"
    by (simp add: demo_defs)
  have 4: "Image_new (demo_env []) ''RGB'' (SIZE demo_settings) (WHITE_BG demo_settings)
             = Inr \<lparr>d_mode = ''RGB'', d_size = (2, 2),
                    d_bands = [[255, 255, 255, 255], [255, 255, 255, 255],
                               [255, 255, 255, 255]]\<rparr>"
    by (simp add: demo_defs) code_simp
  have 5: "Image_split (demo_env []) palette_image = Inr [[0, 1, 1, 0]]"
    by (simp add: demo_defs)
  have 6: "length [[0, 1, 1, 0 :: nat]] < 4" by simp
  have 7: "Image_mode (demo_env []) palette_image = ''P''" by (simp add: demo_defs)
  from band_index_raises_below_four_bands[OF 1 2 3 4 5 6] 1 2 5 7 show ?thesis by simp
qed

subsection \<open>C4: the URL properties\<close>

text \<open>
  C4, as amended.  Every run of the two properties, with the calls it makes.
  \<open>profile_image_url\<close> returns the placeholder without any library call when
  \<open>profile_image\<close> is unset, and after the one storage call when storage reports the file
  absent; when storage reports it present, the result is what the file's \<open>url\<close> gives; an
  exception of the storage call reaches the caller.  \<open>profile_image_thumb_url\<close> asks the
  truth value of the thumbnail field: when that is false it returns the placeholder; when
  it is true it asks the thumbnail's name and then storage, returns the placeholder when
  storage reports the file absent and what the thumbnail's \<open>url\<close> gives when present; an
  exception of the truth value, of the name or of the storage call reaches the caller.
  The placeholder is not empty.
\<close>

theorem url_properties_fall_back_to_placeholder:
  "(\<not> truthy (profile_image self) \<longrightarrow>
      profile_image_url env st self = ([], Inr placeholder)) \<and>
   (truthy (profile_image self) \<and>
    storage_exists env (os_path_join (MEDIA_ROOT st) (the (name (profile_image self))))
      = Inr False \<longrightarrow>
      profile_image_url env st self =
        ([Call_exists (os_path_join (MEDIA_ROOT st) (the (name (profile_image self))))],
         Inr placeholder)) \<and>
   (truthy (profile_image self) \<and>
    storage_exists env (os_path_join (MEDIA_ROOT st) (the (name (profile_image self))))
      = Inr True \<longrightarrow>
      profile_image_url env st self =
        ([Call_exists (os_path_join (MEDIA_ROOT st) (the (name (profile_image self)))),
          Call_url (profile_image self)],
         file_url env (profile_image self))) \<and>
   (truthy (profile_image self) \<and>
    storage_exists env (os_path_join (MEDIA_ROOT st) (the (name (profile_image self))))
      = Inl e \<longrightarrow>
      profile_image_url env st self =
        ([Call_exists (os_path_join (MEDIA_ROOT st) (the (name (profile_image self))))],
         Inl e)) \<and>
   (thumb_bool env (profile_image self) = Inl e \<longrightarrow>
      profile_image_thumb_url env st self =
        ([Call_thumb_bool (profile_image self)], Inl e)) \<and>
   (thumb_bool env (profile_image self) = Inr False \<longrightarrow>
      profile_image_thumb_url env st self =
        ([Call_thumb_bool (profile_image self)], Inr placeholder)) \<and>
   (thumb_bool env (profile_image self) = Inr True \<and>
    thumb_name env (profile_image self) = Inl e \<longrightarrow>
      profile_image_thumb_url env st self =
        ([Call_thumb_bool (profile_image self), Call_thumb_name (profile_image self)],
         Inl e)) \<and>
   (thumb_bool env (profile_image self) = Inr True \<and>
    thumb_name env (profile_image self) = Inr n \<and>
    storage_exists env (os_path_join (MEDIA_ROOT st) n) = Inl e \<longrightarrow>
      profile_image_thumb_url env st self =
        ([Call_thumb_bool (profile_image self), Call_thumb_name (profile_image self),
          Call_exists (os_path_join (MEDIA_ROOT st) n)],
         Inl e)) \<and>
   (thumb_bool env (profile_image self) = Inr True \<and>
    thumb_name env (profile_image self) = Inr n \<and>
    storage_exists env (os_path_join (MEDIA_ROOT st) n) = Inr False \<longrightarrow>
      profile_image_thumb_url env st self =
        ([Call_thumb_bool (profile_image self), Call_thumb_name (profile_image self),
          Call_exists (os_path_join (MEDIA_ROOT st) n)],
         Inr placeholder)) \<and>
   (thumb_bool env (profile_image self) = Inr True \<and>
    thumb_name env (profile_image self) = Inr n \<and>
    storage_exists env (os_path_join (MEDIA_ROOT st) n) = Inr True \<longrightarrow>
      profile_image_thumb_url env st self =
        ([Call_thumb_bool (profile_image self), Call_thumb_name (profile_image self),
          Call_exists (os_path_join (MEDIA_ROOT st) n), Call_thumb_url (profile_image self)],
         thumb_url env (profile_image self))) \<and>
   placeholder \<noteq> []"
  by (simp add: profile_image_url_def profile_image_thumb_url_def placeholder_def
        and_then_def ret_def call_def)

text \<open>
  The theorem on an unset image, on an image whose file is absent, on one whose file is
  present, and on a storage that cannot be reached.
\<close>

theorem url_properties_fall_back_to_placeholder_witness:
  "\<not> truthy (profile_image (demo_profile unset_upload)) \<and>
   profile_image_url (demo_env []) demo_settings (demo_profile unset_upload)
     = ([], Inr placeholder) \<and>
   truthy (profile_image (demo_profile gray_upload)) \<and>
   storage_exists (demo_env []) ''/srv/media/a.png'' = Inr False \<and>
   profile_image_url (demo_env []) demo_settings (demo_profile gray_upload)
     = ([Call_exists ''/srv/media/a.png''], Inr placeholder) \<and>
   storage_exists (demo_env [''/srv/media/a.png'']) ''/srv/media/a.png'' = Inr True \<and>
   profile_image_url (demo_env [''/srv/media/a.png'']) demo_settings (demo_profile gray_upload)
     = ([Call_exists ''/srv/media/a.png'', Call_url gray_upload], Inr ''/media/a.png'') \<and>
   storage_exists unreachable_env ''/srv/media/a.png'' = Inl (Raised ''OSError'') \<and>
   profile_image_url unreachable_env demo_settings (demo_profile gray_upload)
     = ([Call_exists ''/srv/media/a.png''], Inl (Raised ''OSError'')) \<and>
   thumb_bool (demo_env []) (profile_image (demo_profile unset_upload)) = Inr False \<and>
   profile_image_thumb_url (demo_env []) demo_settings (demo_profile unset_upload)
     = ([Call_thumb_bool unset_upload], Inr placeholder) \<and>
   thumb_bool (demo_env []) (profile_image (demo_profile gray_upload)) = Inr True \<and>
   thumb_name (demo_env []) (profile_image (demo_profile gray_upload)) = Inr ''CACHE/a.png'' \<and>
   storage_exists (demo_env []) ''/srv/media/CACHE/a.png'' = Inr False \<and>
   profile_image_thumb_url (demo_env []) demo_settings (demo_profile gray_upload)
     = ([Call_thumb_bool gray_upload, Call_thumb_name gray_upload,
         Call_exists ''/srv/media/CACHE/a.png''], Inr placeholder) \<and>
   storage_exists unreachable_env ''/srv/media/CACHE/a.png'' = Inl (Raised ''OSError'') \<and>
   profile_image_thumb_url unreachable_env demo_settings (demo_profile gray_upload)
     = ([Call_thumb_bool gray_upload, Call_thumb_name gray_upload,
         Call_exists ''/srv/media/CACHE/a.png''], Inl (Raised ''OSError''))"
proof -
  have p: "os_path_join (MEDIA_ROOT demo_settings)
             (the (name (profile_image (demo_profile gray_upload)))) = ''/srv/media/a.png''"
    "os_path_join (MEDIA_ROOT demo_settings) ''CACHE/a.png'' = ''/srv/media/CACHE/a.png''"
    by (simp_all add: os_path_join_def demo_defs)
  have pi: "profile_image (demo_profile gray_upload) = gray_upload"
    "profile_image (demo_profile unset_upload) = unset_upload"
    by (simp_all add: demo_profile_def)
  have u: "\<not> truthy (profile_image (demo_profile unset_upload))"
    by (simp add: truthy_def demo_defs)
  have g: "truthy (profile_image (demo_profile gray_upload))"
    by (simp add: truthy_def demo_defs)
  have e: "storage_exists (demo_env []) ''/srv/media/a.png'' = Inr False"
    "storage_exists (demo_env [''/srv/media/a.png'']) ''/srv/media/a.png'' = Inr True"
    "storage_exists unreachable_env ''/srv/media/a.png'' = Inl (Raised ''OSError'')"
    "storage_exists (demo_env []) ''/srv/media/CACHE/a.png'' = Inr False"
    "storage_exists unreachable_env ''/srv/media/CACHE/a.png'' = Inl (Raised ''OSError'')"
    by (simp_all add: demo_env_def unreachable_env_def)
  have f: "file_url (demo_env [''/srv/media/a.png'']) (profile_image (demo_profile gray_upload))
             = Inr ''/media/a.png''"
    by (simp add: demo_defs)
  have tb: "thumb_bool (demo_env []) (profile_image (demo_profile unset_upload)) = Inr False"
    "thumb_bool (demo_env []) (profile_image (demo_profile gray_upload)) = Inr True"
    "thumb_name (demo_env []) (profile_image (demo_profile gray_upload)) = Inr ''CACHE/a.png''"
    "thumb_bool unreachable_env (profile_image (demo_profile gray_upload)) = Inr True"
    "thumb_name unreachable_env (profile_image (demo_profile gray_upload)) = Inr ''CACHE/a.png''"
    by (simp_all add: truthy_def demo_defs)
  note a = url_properties_fall_back_to_placeholder
    [of "demo_profile unset_upload" "demo_env []" demo_settings]
  note b = url_properties_fall_back_to_placeholder
    [of "demo_profile gray_upload" "demo_env []" demo_settings _ "''CACHE/a.png''"]
  note c = url_properties_fall_back_to_placeholder
    [of "demo_profile gray_upload" "demo_env [''/srv/media/a.png'']" demo_settings]
  note d = url_properties_fall_back_to_placeholder
    [of "demo_profile gray_upload" unreachable_env demo_settings "Raised ''OSError''"
        "''CACHE/a.png''"]
  from a u tb have 1: "profile_image_url (demo_env []) demo_settings (demo_profile unset_upload)
     = ([], Inr placeholder)"
    "profile_image_thumb_url (demo_env []) demo_settings (demo_profile unset_upload)
     = ([Call_thumb_bool unset_upload], Inr placeholder)"
    unfolding pi by blast+
  from b g e p tb have 2:
    "profile_image_url (demo_env []) demo_settings (demo_profile gray_upload)
     = ([Call_exists ''/srv/media/a.png''], Inr placeholder)"
    "profile_image_thumb_url (demo_env []) demo_settings (demo_profile gray_upload)
     = ([Call_thumb_bool gray_upload, Call_thumb_name gray_upload,
         Call_exists ''/srv/media/CACHE/a.png''], Inr placeholder)"
    unfolding pi by simp_all
  from c g e p f have 3:
    "profile_image_url (demo_env [''/srv/media/a.png'']) demo_settings (demo_profile gray_upload)
     = ([Call_exists ''/srv/media/a.png'', Call_url gray_upload], Inr ''/media/a.png'')"
    unfolding pi by simp
  from d g e p tb have 4:
    "profile_image_url unreachable_env demo_settings (demo_profile gray_upload)
     = ([Call_exists ''/srv/media/a.png''], Inl (Raised ''OSError''))"
    "profile_image_thumb_url unreachable_env demo_settings (demo_profile gray_upload)
     = ([Call_thumb_bool gray_upload, Call_thumb_name gray_upload,
         Call_exists ''/srv/media/CACHE/a.png''], Inl (Raised ''OSError''))"
    unfolding pi by simp_all
  from u g e tb(1,2,3) 1 2 3 4 show ?thesis by (intro conjI)
qed

text \<open>
  C4 as stated fails when the storage backend raises: the exception reaches the
  caller, no placeholder is returned.
\<close>

theorem unreachable_storage_propagates:
  "truthy (profile_image (demo_profile gray_upload)) \<and>
   profile_image_url unreachable_env demo_settings (demo_profile gray_upload)
     = ([Call_exists ''/srv/media/a.png''], Inl (Raised ''OSError''))"
  by (simp add: unreachable_url) (simp add: truthy_def demo_defs)

subsection \<open>C5: a failed normalization writes nothing\<close>

text \<open>
  C5.  If normalization raises during \<open>save\<close>, \<open>save\<close> ends with that exception, the
  persisted state is the one it started from, and \<open>super().save\<close> was never called.
  In every case the persisted state after \<open>save\<close> is either the prior state or the
  outcome of \<open>super().save\<close> on the completely normalized profile: \<open>save\<close> itself
  persists no state in between.
\<close>

theorem save_failure_leaves_state:
  "(truthy (profile_image self) \<and> resize_profile_image env st self = (t, Inl e) \<longrightarrow>
      save env st self db = (t, Inl e, db) \<and> (\<forall>p. Call_super_save p \<notin> set t)) \<and>
   (save env st self db = (t', r, db') \<longrightarrow>
      db' = db \<or>
      (\<exists>t0 self'.
         (if truthy (profile_image self) then resize_profile_image env st self else ret self)
           = (t0, Inr self') \<and>
         t' = t0 @ [Call_super_save self'] \<and> (r, db') = Model_save env self' db))"
proof (intro conjI impI)
  assume a: "truthy (profile_image self) \<and> resize_profile_image env st self = (t, Inl e)"
  then show "save env st self db = (t, Inl e, db)"
    by (simp add: save_def)
  from a have "t = fst (resize_profile_image env st self)" by simp
  then show "\<forall>p. Call_super_save p \<notin> set t"
    by (simp add: resize_no_super_save)
next
  assume s: "save env st self db = (t', r, db')"
  obtain t0 r0 where run:
    "(if truthy (profile_image self) then resize_profile_image env st self else ret self)
       = (t0, r0)"
    by (cases "if truthy (profile_image self) then resize_profile_image env st self else ret self")
  show "db' = db \<or>
      (\<exists>t0 self'.
         (if truthy (profile_image self) then resize_profile_image env st self else ret self)
           = (t0, Inr self') \<and>
         t' = t0 @ [Call_super_save self'] \<and> (r, db') = Model_save env self' db)"
  proof (cases r0)
    case (Inl e0)
    with s run have "db' = db" by (simp add: save_def)
    then show ?thesis by simp
  next
    case (Inr self')
    with s run have "t' = t0 @ [Call_super_save self'] \<and> (r, db') = Model_save env self' db"
      by (auto simp: save_def split: prod.splits)
    with run Inr show ?thesis by blast
  qed
qed

theorem save_failure_leaves_state_witness:
  "save (demo_env []) demo_settings (demo_profile broken_upload) [demo_profile gray_upload] =
     ([Call_open broken_upload], Inl (Raised ''UnidentifiedImageError''),
      [demo_profile gray_upload]) \<and>
   Call_super_save (demo_profile broken_upload) \<notin> set [Call_open broken_upload :: (dimg, nat list) call]"
proof -
  have tr: "truthy (profile_image (demo_profile broken_upload))"
    by (simp add: truthy_def demo_defs)
  from save_failure_leaves_state
    [of "demo_profile broken_upload" "demo_env []" demo_settings "[Call_open broken_upload]"
        "Raised ''UnidentifiedImageError''" "[demo_profile gray_upload]"]
    tr broken_run
  show ?thesis by simp
qed

subsection \<open>C6: the mode and size of the encoded buffer\<close>

text \<open>
  C6, as amended.  Given what Pillow documents of fit, new and paste
  (\<open>pillow_contract\<close>), a run of \<open>resize_profile_image\<close> that does not raise encodes
  exactly one buffer; it has the target size; its mode is \<open>RGB\<close>, except that a fitted
  buffer of mode \<open>L\<close> (grayscale) is encoded as it is, in mode \<open>L\<close>.
\<close>

theorem encoded_buffer_is_rgb_or_grayscale:
  assumes "pillow_contract env"
    and "resize_profile_image env st self = (t, Inr self')"
  shows "\<exists>opened fitted out.
           Image_open env (profile_image self) = Inr opened \<and>
           ImageOps_fit env opened (SIZE st) ANTIALIAS (1/2, 1/2) = Inr fitted \<and>
           encoded t = [out] \<and>
           Image_size env out = SIZE st \<and>
           Image_mode env out = (if Image_mode env fitted = ''L'' then ''L'' else ''RGB'')"
proof -
  from assms(2) obtain opened fitted mid out bs pos f where
    op: "Image_open env (profile_image self) = Inr opened"
    and fit: "ImageOps_fit env opened (SIZE st) ANTIALIAS (1/2, 1/2) = Inr fitted"
    and t: "t = [Call_open (profile_image self), Call_fit opened (SIZE st) ANTIALIAS (1/2, 1/2)]
              @ mid @
              [Call_save out ''JPEG'' 90, Call_tell out,
               Call_InMemoryUploadedFile bs ''ImageField'' (name (profile_image self))
                 ''image/jpeg'' pos]"
    and flat: "(Image_mode env fitted \<in> set [''L'', ''RGB''] \<and> mid = [] \<and> out = fitted) \<or>
      (Image_mode env fitted \<notin> set [''L'', ''RGB''] \<and>
       (\<exists>bg bands. Image_new env ''RGB'' (SIZE st) (WHITE_BG st) = Inr bg \<and>
          Image_split env fitted = Inr bands \<and> 3 < length bands \<and>
          Image_paste env bg fitted (bands ! 3) = Inr out \<and>
          mid = [Call_new ''RGB'' (SIZE st) (WHITE_BG st), Call_split fitted,
                 Call_paste bg fitted (bands ! 3)]))"
    by (rule resize_success)
  from assms(1) fit have fsz: "Image_size env fitted = SIZE st"
    unfolding pillow_contract_def by blast
  from flat have "encoded t = [out] \<and> Image_size env out = SIZE st \<and>
      Image_mode env out = (if Image_mode env fitted = ''L'' then ''L'' else ''RGB'')"
  proof
    assume "Image_mode env fitted \<in> set [''L'', ''RGB''] \<and> mid = [] \<and> out = fitted"
    with t fsz show ?thesis by (auto simp: encoded_simps)
  next
    assume a: "Image_mode env fitted \<notin> set [''L'', ''RGB''] \<and>
       (\<exists>bg bands. Image_new env ''RGB'' (SIZE st) (WHITE_BG st) = Inr bg \<and>
          Image_split env fitted = Inr bands \<and> 3 < length bands \<and>
          Image_paste env bg fitted (bands ! 3) = Inr out \<and>
          mid = [Call_new ''RGB'' (SIZE st) (WHITE_BG st), Call_split fitted,
                 Call_paste bg fitted (bands ! 3)])"
    then obtain bg bands where
      new: "Image_new env ''RGB'' (SIZE st) (WHITE_BG st) = Inr bg"
      and paste: "Image_paste env bg fitted (bands ! 3) = Inr out"
      and mid: "mid = [Call_new ''RGB'' (SIZE st) (WHITE_BG st), Call_split fitted,
                 Call_paste bg fitted (bands ! 3)]"
      by blast
    from assms(1) new have bg: "Image_mode env bg = ''RGB''" "Image_size env bg = SIZE st"
      unfolding pillow_contract_def by blast+
    from assms(1) paste have "Image_mode env out = Image_mode env bg"
      "Image_size env out = Image_size env bg"
      unfolding pillow_contract_def by blast+
    with bg a t mid show ?thesis by (auto simp: encoded_simps)
  qed
  with op fit show ?thesis by blast
qed

theorem encoded_buffer_is_rgb_or_grayscale_witness:
  "pillow_contract (demo_env []) \<and>
   snd (resize_profile_image (demo_env []) demo_settings (demo_profile rgba_upload)) =
     Inr (demo_profile
        \<lparr>content = [1, 2, 2, 255, 3, 6, 255, 255, 13, 16, 255, 255, 23, 26, 255],
         field_name = Some ''ImageField'', name = Some ''a.png'',
         content_type = Some ''image/jpeg'', size_arg = Some 0, charset = None\<rparr>) \<and>
   (\<exists>opened fitted out.
      Image_open (demo_env []) (profile_image (demo_profile rgba_upload)) = Inr opened \<and>
      ImageOps_fit (demo_env []) opened (SIZE demo_settings) ANTIALIAS (1/2, 1/2) = Inr fitted \<and>
      encoded (fst (resize_profile_image (demo_env []) demo_settings (demo_profile rgba_upload)))
        = [out] \<and>
      Image_size (demo_env []) out = SIZE demo_settings \<and>
      Image_mode (demo_env []) out
        = (if Image_mode (demo_env []) fitted = ''L'' then ''L'' else ''RGB''))"
proof -
  define t where "t = fst (resize_profile_image (demo_env []) demo_settings (demo_profile rgba_upload))"
  have run: "resize_profile_image (demo_env []) demo_settings (demo_profile rgba_upload) =
     (t, Inr (demo_profile
        \<lparr>content = [1, 2, 2, 255, 3, 6, 255, 255, 13, 16, 255, 255, 23, 26, 255],
         field_name = Some ''ImageField'', name = Some ''a.png'',
         content_type = Some ''image/jpeg'', size_arg = Some 0, charset = None\<rparr>))"
    unfolding t_def by (simp add: rgba_run)
  from encoded_buffer_is_rgb_or_grayscale[OF demo_contract run]
  have ex: "\<exists>opened fitted out.
      Image_open (demo_env []) (profile_image (demo_profile rgba_upload)) = Inr opened \<and>
      ImageOps_fit (demo_env []) opened (SIZE demo_settings) ANTIALIAS (1/2, 1/2) = Inr fitted \<and>
      encoded t = [out] \<and>
      Image_size (demo_env []) out = SIZE demo_settings \<and>
      Image_mode (demo_env []) out
        = (if Image_mode (demo_env []) fitted = ''L'' then ''L'' else ''RGB'')" .
  have s: "snd (resize_profile_image (demo_env []) demo_settings (demo_profile rgba_upload)) =
     Inr (demo_profile
        \<lparr>content = [1, 2, 2, 255, 3, 6, 255, 255, 13, 16, 255, 255, 23, 26, 255],
         field_name = Some ''ImageField'', name = Some ''a.png'',
         content_type = Some ''image/jpeg'', size_arg = Some 0, charset = None\<rparr>)"
    by (simp only: run snd_conv)
  from demo_contract s ex show ?thesis unfolding t_def by (intro conjI)
qed

text \<open>
  C6 as stated fails for a grayscale source: the encoded buffer is the grayscale one,
  not an RGB buffer.
\<close>

theorem grayscale_stays_grayscale:
  "Image_open (demo_env []) (profile_image (demo_profile gray_upload)) = Inr gray_image \<and>
   Image_mode (demo_env []) gray_image = ''L'' \<and>
   snd (resize_profile_image (demo_env []) demo_settings (demo_profile gray_upload))
     = Inr (demo_profile normalized_upload) \<and>
   encoded (fst (resize_profile_image (demo_env []) demo_settings (demo_profile gray_upload)))
     = [gray_image] \<and>
   Image_mode (demo_env []) gray_image \<noteq> ''RGB''"
proof (intro conjI)
  show "Image_open (demo_env []) (profile_image (demo_profile gray_upload)) = Inr gray_image"
    by (simp add: demo_defs)
  show "Image_mode (demo_env []) gray_image = ''L''"
    by (simp add: demo_env_def gray_image_def)
  show "snd (resize_profile_image (demo_env []) demo_settings (demo_profile gray_upload))
     = Inr (demo_profile normalized_upload)"
    by (simp only: gray_run snd_conv)
  show "encoded (fst (resize_profile_image (demo_env []) demo_settings (demo_profile gray_upload)))
     = [gray_image]"
    by (simp only: gray_run fst_conv encoded_simps)
  show "Image_mode (demo_env []) gray_image \<noteq> ''RGB''"
    by (simp add: demo_env_def gray_image_def)
qed

subsection \<open>C7: a source that already has the target size\<close>

text \<open>
  C7.  Let the upload decode to a buffer of size \<open>SIZE\<close> and mode \<open>RGB\<close>, on a library
  whose fit of that buffer at its own size returns the buffer.  Then the one buffer that
  is JPEG-encoded is the decoded buffer itself, pixel for pixel: the calls are \<open>open\<close>,
  \<open>fit\<close> and \<open>save\<close> on it, with no canvas, no \<open>split\<close> and no \<open>paste\<close>, and a run that
  does not raise hands the bytes of that \<open>save\<close> and the value of \<open>tell\<close> to the file
  constructor.  The geometry of the specification at the buffer's own size is scale 1,
  unchanged dimensions and crop origin \<open>(0, 0)\<close>, and the fit of the specification
  returns a buffer of size \<open>SIZE\<close> unchanged whenever its resampling filter leaves a
  band unchanged at scale 1.
\<close>

theorem same_size_rgb_source_is_left_as_it_is:
  assumes op: "Image_open env (profile_image self) = Inr opened"
    and size: "Image_size env opened = SIZE st"
    and mode: "Image_mode env opened = ''RGB''"
    and fit: "ImageOps_fit env opened (SIZE st) ANTIALIAS (1/2, 1/2) = Inr opened"
  shows "encoded (fst (resize_profile_image env st self)) = [opened] \<and>
     (\<exists>rest. fst (resize_profile_image env st self) =
        [Call_open (profile_image self),
         Call_fit opened (SIZE st) ANTIALIAS (1/2, 1/2),
         Call_save opened ''JPEG'' 90] @ rest) \<and>
     (\<forall>t self'. resize_profile_image env st self = (t, Inr self') \<longrightarrow>
        (\<exists>bs pos.
           Image_save env opened ''JPEG'' 90 = Inr bs \<and>
           Image_tell env opened = Inr pos \<and>
           InMemoryUploadedFile env bs ''ImageField'' (name (profile_image self))
             ''image/jpeg'' pos = Inr (profile_image self') \<and>
           t = [Call_open (profile_image self),
                Call_fit opened (SIZE st) ANTIALIAS (1/2, 1/2),
                Call_save opened ''JPEG'' 90, Call_tell opened,
                Call_InMemoryUploadedFile bs ''ImageField'' (name (profile_image self))
                  ''image/jpeg'' pos])) \<and>
     (0 < fst (SIZE st) \<and> 0 < snd (SIZE st) \<longrightarrow>
        fit_scale (Image_size env opened) (SIZE st) = 1 \<and>
        fit_resized (Image_size env opened) (SIZE st)
          = (int (fst (SIZE st)), int (snd (SIZE st))) \<and>
        fit_crop_origin (Image_size env opened) (SIZE st) = (0, 0)) \<and>
     (\<forall>R im flt.
        d_size im = SIZE st \<and> 0 < fst (SIZE st) \<and> 0 < snd (SIZE st) \<and>
        (\<forall>b \<in> set (d_bands im).
           length b = fst (SIZE st) * snd (SIZE st) \<and> R flt (SIZE st) (SIZE st) b = b)
        \<longrightarrow> spec_fit R im (SIZE st) flt = im)"
proof -
  have tr: "fst (resize_profile_image env st self) =
       [Call_open (profile_image self), Call_fit opened (SIZE st) ANTIALIAS (1/2, 1/2),
        Call_save opened ''JPEG'' 90] @
       (case Image_save env opened ''JPEG'' 90 of
          Inl e \<Rightarrow> []
        | Inr bs \<Rightarrow> Call_tell opened #
            (case Image_tell env opened of
               Inl e \<Rightarrow> []
             | Inr pos \<Rightarrow>
                 [Call_InMemoryUploadedFile bs ''ImageField'' (name (profile_image self))
                    ''image/jpeg'' pos]))"
    unfolding resize_profile_image_def
    by (simp add: and_then_def call_def ret_def op fit mode split: sum.splits)
  have a: "encoded (fst (resize_profile_image env st self)) = [opened]"
    unfolding tr by (simp add: encoded_simps split: sum.splits)
  have b: "\<exists>rest. fst (resize_profile_image env st self) =
        [Call_open (profile_image self),
         Call_fit opened (SIZE st) ANTIALIAS (1/2, 1/2),
         Call_save opened ''JPEG'' 90] @ rest"
    using tr by blast
  have c: "\<exists>bs pos.
           Image_save env opened ''JPEG'' 90 = Inr bs \<and>
           Image_tell env opened = Inr pos \<and>
           InMemoryUploadedFile env bs ''ImageField'' (name (profile_image self))
             ''image/jpeg'' pos = Inr (profile_image self') \<and>
           t = [Call_open (profile_image self),
                Call_fit opened (SIZE st) ANTIALIAS (1/2, 1/2),
                Call_save opened ''JPEG'' 90, Call_tell opened,
                Call_InMemoryUploadedFile bs ''ImageField'' (name (profile_image self))
                  ''image/jpeg'' pos]"
    if run: "resize_profile_image env st self = (t, Inr self')" for t self'
  proof -
    from resize_normalizes[OF run] op fit obtain mid out bs pos f where
      fl: "flattens env st opened mid out"
      and 4: "Image_save env out ''JPEG'' 90 = Inr bs"
      and 5: "Image_tell env out = Inr pos"
      and 6: "InMemoryUploadedFile env bs ''ImageField'' (name (profile_image self))
                ''image/jpeg'' pos = Inr f"
      and s: "self' = self\<lparr>profile_image := f\<rparr>"
      and t: "t = [Call_open (profile_image self), Call_fit opened (SIZE st) ANTIALIAS (1/2, 1/2)]
            @ mid @
            [Call_save out ''JPEG'' 90, Call_tell out,
             Call_InMemoryUploadedFile bs ''ImageField'' (name (profile_image self))
               ''image/jpeg'' pos]"
      unfolding normalizes_def by auto
    from fl mode have "mid = []" "out = opened" unfolding flattens_def by auto
    with 4 5 6 s t show ?thesis by auto
  qed
  have d: "fit_scale (Image_size env opened) (SIZE st) = 1 \<and>
        fit_resized (Image_size env opened) (SIZE st)
          = (int (fst (SIZE st)), int (snd (SIZE st))) \<and>
        fit_crop_origin (Image_size env opened) (SIZE st) = (0, 0)"
    if "0 < fst (SIZE st) \<and> 0 < snd (SIZE st)"
    using fit_same_size[of "fst (SIZE st)" "snd (SIZE st)"] that unfolding size by simp
  have e: "spec_fit R im (SIZE st) flt = im"
    if "d_size im = SIZE st \<and> 0 < fst (SIZE st) \<and> 0 < snd (SIZE st) \<and>
        (\<forall>b \<in> set (d_bands im).
           length b = fst (SIZE st) * snd (SIZE st) \<and> R flt (SIZE st) (SIZE st) b = b)"
    for R im flt
    using spec_fit_own_size[of im "fst (SIZE st)" "snd (SIZE st)" R flt] that by simp
  from a b c d e show ?thesis by (intro conjI allI impI) blast+
qed

text \<open>
  The theorem on a 2 by 2 RGB upload with target \<open>(2, 2)\<close>, on the library with the
  fit of the specification.
\<close>

theorem same_size_rgb_source_is_left_as_it_is_witness:
  "Image_open spec_env (profile_image (demo_profile rgb_upload)) = Inr rgb_image \<and>
   Image_size spec_env rgb_image = SIZE demo_settings \<and>
   Image_mode spec_env rgb_image = ''RGB'' \<and>
   ImageOps_fit spec_env rgb_image (SIZE demo_settings) ANTIALIAS (1/2, 1/2) = Inr rgb_image \<and>
   encoded (fst (resize_profile_image spec_env demo_settings (demo_profile rgb_upload)))
     = [rgb_image] \<and>
   fit_scale (Image_size spec_env rgb_image) (SIZE demo_settings) = 1 \<and>
   fit_crop_origin (Image_size spec_env rgb_image) (SIZE demo_settings) = (0, 0) \<and>
   spec_fit nearest rgb_image (SIZE demo_settings) ANTIALIAS = rgb_image"
proof -
  have tg: "SIZE demo_settings = (2, 2)" by (simp add: demo_settings_def)
  have op: "Image_open spec_env (profile_image (demo_profile rgb_upload)) = Inr rgb_image"
    by (simp add: spec_env_fields demo_defs upt_rec)
  have sz: "Image_size spec_env rgb_image = SIZE demo_settings"
    by (simp add: spec_env_fields demo_defs)
  have md: "Image_mode spec_env rgb_image = ''RGB''"
    by (simp add: spec_env_fields demo_defs)
  have ft: "ImageOps_fit spec_env rgb_image (SIZE demo_settings) ANTIALIAS (1/2, 1/2)
              = Inr rgb_image"
    by (simp add: spec_env_fields tg spec_fit_rgb)
  note inst = same_size_rgb_source_is_left_as_it_is[OF op sz md ft]
  from inst have a: "encoded (fst (resize_profile_image spec_env demo_settings
                        (demo_profile rgb_upload))) = [rgb_image]"
    by (elim conjE)
  have pos: "0 < fst (SIZE demo_settings) \<and> 0 < snd (SIZE demo_settings)"
    by (simp add: tg)
  from inst pos have g: "fit_scale (Image_size spec_env rgb_image) (SIZE demo_settings) = 1"
    "fit_crop_origin (Image_size spec_env rgb_image) (SIZE demo_settings) = (0, 0)"
    by blast+
  have own: "d_size rgb_image = SIZE demo_settings \<and>
      0 < fst (SIZE demo_settings) \<and> 0 < snd (SIZE demo_settings) \<and>
      (\<forall>b \<in> set (d_bands rgb_image).
         length b = fst (SIZE demo_settings) * snd (SIZE demo_settings) \<and>
         nearest ANTIALIAS (SIZE demo_settings) (SIZE demo_settings) b = b)"
    by (simp add: tg rgb_image_def nearest_same22)
  from inst own have s: "spec_fit nearest rgb_image (SIZE demo_settings) ANTIALIAS = rgb_image"
    by blast
  from op sz md ft a g s show ?thesis by (intro conjI)
qed

subsection \<open>C8: no check of the dimensions\<close>

text \<open>
  C8, as amended.  \<open>resize_profile_image\<close> checks no dimension: whenever \<open>Image.open\<close>
  returns a buffer, of whatever width and height, the next call is \<open>ImageOps.fit\<close> on
  that buffer with the target size, the antialias filter and centering (0.5, 0.5); an
  exception raised by that call ends the run and is the run's exception.
\<close>

theorem resize_attempts_fit_whatever_the_dimensions:
  assumes "Image_open env (profile_image self) = Inr opened"
  shows "(\<exists>rest. fst (resize_profile_image env st self) =
            Call_open (profile_image self)
              # Call_fit opened (SIZE st) ANTIALIAS (1/2, 1/2) # rest) \<and>
         (case ImageOps_fit env opened (SIZE st) ANTIALIAS (1/2, 1/2) of
            Inl e \<Rightarrow>
              resize_profile_image env st self =
                ([Call_open (profile_image self),
                  Call_fit opened (SIZE st) ANTIALIAS (1/2, 1/2)], Inl e)
          | Inr fitted \<Rightarrow> True)"
  using assms unfolding resize_profile_image_def
  by (simp add: and_then_call_Inr and_then_call_Inl fst_and_then_call split: sum.splits)

theorem resize_attempts_fit_whatever_the_dimensions_witness:
  "Image_open (demo_env []) (profile_image (demo_profile flat_upload)) = Inr flat_image \<and>
   Image_size (demo_env []) flat_image = (3, 0) \<and>
   (\<exists>rest. fst (resize_profile_image (demo_env []) demo_settings (demo_profile flat_upload)) =
            Call_open (profile_image (demo_profile flat_upload))
              # Call_fit flat_image (SIZE demo_settings) ANTIALIAS (1/2, 1/2) # rest)"
proof -
  have 1: "Image_open (demo_env []) (profile_image (demo_profile flat_upload)) = Inr flat_image"
    by (simp add: demo_defs)
  have 2: "Image_size (demo_env []) flat_image = (3, 0)"
    by (simp add: demo_defs)
  from resize_attempts_fit_whatever_the_dimensions[OF 1, of demo_settings] 1 2
  show ?thesis by simp
qed

text \<open>
  C8 as stated fails for a source of height zero: the fit is attempted, and the
  exception is the one the fit raises, not an \<open>InvalidImageError\<close>.
\<close>

theorem zero_height_reaches_fit:
  "Image_size (demo_env []) flat_image = (3, 0) \<and>
   resize_profile_image (demo_env []) demo_settings (demo_profile flat_upload) =
     ([Call_open flat_upload, Call_fit flat_image (2, 2) ANTIALIAS (1/2, 1/2)],
      Inl (Raised ''ZeroDivisionError'')) \<and>
   Raised ''ZeroDivisionError'' \<noteq> Raised ''InvalidImageError''"
  by (simp add: flat_run) (simp add: demo_defs)

subsection \<open>C9: the file name goes to the constructor unchanged\<close>

text \<open>
  C9, as amended.  A run of \<open>resize_profile_image\<close> that does not raise opens the image,
  fits it to \<open>SIZE\<close>, flattens the fitted buffer where its mode asks for it, saves the
  resulting buffer as JPEG at quality 90, and hands to the \<open>InMemoryUploadedFile\<close>
  constructor the bytes of that save, the field name \<open>ImageField\<close>, the old file name
  unchanged, the content type \<open>image/jpeg\<close> and the value of \<open>tell\<close> on that buffer.  The
  new \<open>profile_image\<close> is what the constructor returns, and no other field of the profile
  changes.  The name after the call equals the name before it whenever the constructor
  keeps the name it is given.
\<close>

theorem resize_hands_name_to_constructor:
  assumes "resize_profile_image env st self = (t, Inr self')"
  shows "(\<exists>opened fitted mid out bs pos.
            Image_open env (profile_image self) = Inr opened \<and>
            ImageOps_fit env opened (SIZE st) ANTIALIAS (1/2, 1/2) = Inr fitted \<and>
            flattens env st fitted mid out \<and>
            Image_save env out ''JPEG'' 90 = Inr bs \<and>
            Image_tell env out = Inr pos \<and>
            InMemoryUploadedFile env bs ''ImageField'' (name (profile_image self))
              ''image/jpeg'' pos = Inr (profile_image self') \<and>
            t = [Call_open (profile_image self),
                 Call_fit opened (SIZE st) ANTIALIAS (1/2, 1/2)] @ mid @
                [Call_save out ''JPEG'' 90, Call_tell out,
                 Call_InMemoryUploadedFile bs ''ImageField'' (name (profile_image self))
                   ''image/jpeg'' pos]) \<and>
         self' = self\<lparr>profile_image := profile_image self'\<rparr> \<and>
         ((\<forall>bs pos f.
             InMemoryUploadedFile env bs ''ImageField'' (name (profile_image self))
               ''image/jpeg'' pos = Inr f \<longrightarrow> name f = name (profile_image self))
          \<longrightarrow> name (profile_image self') = name (profile_image self))"
proof -
  from resize_normalizes[OF assms] obtain opened fitted mid out bs pos f where
    1: "Image_open env (profile_image self) = Inr opened"
    and 2: "ImageOps_fit env opened (SIZE st) ANTIALIAS (1/2, 1/2) = Inr fitted"
    and 3: "flattens env st fitted mid out"
    and 4: "Image_save env out ''JPEG'' 90 = Inr bs"
    and 5: "Image_tell env out = Inr pos"
    and ctor: "InMemoryUploadedFile env bs ''ImageField'' (name (profile_image self))
             ''image/jpeg'' pos = Inr f"
    and self': "self' = self\<lparr>profile_image := f\<rparr>"
    and t: "t = [Call_open (profile_image self), Call_fit opened (SIZE st) ANTIALIAS (1/2, 1/2)]
              @ mid @
              [Call_save out ''JPEG'' 90, Call_tell out,
               Call_InMemoryUploadedFile bs ''ImageField'' (name (profile_image self))
                 ''image/jpeg'' pos]"
    unfolding normalizes_def by blast
  from self' have f: "profile_image self' = f" by simp
  have a: "\<exists>opened fitted mid out bs pos.
            Image_open env (profile_image self) = Inr opened \<and>
            ImageOps_fit env opened (SIZE st) ANTIALIAS (1/2, 1/2) = Inr fitted \<and>
            flattens env st fitted mid out \<and>
            Image_save env out ''JPEG'' 90 = Inr bs \<and>
            Image_tell env out = Inr pos \<and>
            InMemoryUploadedFile env bs ''ImageField'' (name (profile_image self))
              ''image/jpeg'' pos = Inr (profile_image self') \<and>
            t = [Call_open (profile_image self),
                 Call_fit opened (SIZE st) ANTIALIAS (1/2, 1/2)] @ mid @
                [Call_save out ''JPEG'' 90, Call_tell out,
                 Call_InMemoryUploadedFile bs ''ImageField'' (name (profile_image self))
                   ''image/jpeg'' pos]"
    using 1 2 3 4 5 ctor t unfolding f by blast
  have b: "self' = self\<lparr>profile_image := profile_image self'\<rparr>"
    using self' by simp
  have c: "name (profile_image self') = name (profile_image self)"
    if "\<forall>bs pos f.
             InMemoryUploadedFile env bs ''ImageField'' (name (profile_image self))
               ''image/jpeg'' pos = Inr f \<longrightarrow> name f = name (profile_image self)"
    using that ctor f by blast
  from a b c show ?thesis by blast
qed

text \<open>The theorem on a grayscale upload whose name has no directory part.\<close>

theorem resize_hands_name_to_constructor_witness:
  "resize_profile_image (demo_env []) demo_settings (demo_profile gray_upload) =
     ([Call_open gray_upload,
       Call_fit gray_image (2, 2) ANTIALIAS (1/2, 1/2),
       Call_save gray_image ''JPEG'' 90,
       Call_tell gray_image,
       Call_InMemoryUploadedFile [0, 2, 2, 10, 20, 30, 40] ''ImageField'' (Some ''a.png'')
         ''image/jpeg'' 0],
      Inr (demo_profile normalized_upload)) \<and>
   Image_save (demo_env []) gray_image ''JPEG'' 90 = Inr [0, 2, 2, 10, 20, 30, 40] \<and>
   Image_tell (demo_env []) gray_image = Inr 0 \<and>
   InMemoryUploadedFile (demo_env []) [0, 2, 2, 10, 20, 30, 40] ''ImageField'' (Some ''a.png'')
     ''image/jpeg'' 0 = Inr normalized_upload \<and>
   name (profile_image (demo_profile normalized_upload))
     = name (profile_image (demo_profile gray_upload)) \<and>
   demo_profile normalized_upload
     = (demo_profile gray_upload)\<lparr>profile_image := normalized_upload\<rparr>"
proof -
  have keeps: "\<forall>bs pos f.
      InMemoryUploadedFile (demo_env []) bs ''ImageField''
        (name (profile_image (demo_profile gray_upload))) ''image/jpeg'' pos = Inr f
      \<longrightarrow> name f = name (profile_image (demo_profile gray_upload))"
    by (auto simp: demo_defs)
  from resize_hands_name_to_constructor[OF gray_run] keeps
  have nm: "name (profile_image (demo_profile normalized_upload))
     = name (profile_image (demo_profile gray_upload))"
    and fr: "demo_profile normalized_upload
     = (demo_profile gray_upload)\<lparr>profile_image := profile_image (demo_profile normalized_upload)\<rparr>"
    by blast+
  have sv: "Image_save (demo_env []) gray_image ''JPEG'' 90 = Inr [0, 2, 2, 10, 20, 30, 40]"
    by (simp add: demo_defs)
  have tl: "Image_tell (demo_env []) gray_image = Inr 0"
    by (simp add: demo_defs)
  have ct: "InMemoryUploadedFile (demo_env []) [0, 2, 2, 10, 20, 30, 40] ''ImageField''
      (Some ''a.png'') ''image/jpeg'' 0 = Inr normalized_upload"
    by (simp add: demo_defs)
  have fr': "demo_profile normalized_upload
     = (demo_profile gray_upload)\<lparr>profile_image := normalized_upload\<rparr>"
    using fr by (simp add: demo_profile_def)
  from gray_run sv tl ct nm fr' show ?thesis by (intro conjI)
qed

text \<open>
  C9 as stated fails where the constructor keeps only the base name of the name it is
  given, which is what Django's \<open>UploadedFile\<close> does: the stored name
  \<open>profile_uploads/a.png\<close> becomes \<open>a.png\<close>.
\<close>

theorem resize_changes_stored_name:
  "name (profile_image (demo_profile stored_upload)) = Some ''profile_uploads/a.png'' \<and>
   snd (resize_profile_image (demo_env []) demo_settings (demo_profile stored_upload))
     = Inr (demo_profile normalized_upload) \<and>
   name (profile_image (demo_profile normalized_upload)) = Some ''a.png''"
  by (simp add: stored_run) (simp add: demo_defs)

subsection \<open>C10: every save with an image runs the pipeline again\<close>

text \<open>
  C10.  A \<open>save\<close> of a profile whose \<open>profile_image\<close> is not empty starts by opening the
  current image, and then one of two things holds.  Either the pipeline raises: no
  complete run of it exists for this profile, \<open>save\<close> raises, \<open>super().save\<close> is not
  called and the persisted state is as before.  Or the calls of \<open>save\<close> are the calls of
  a complete run of the pipeline (\<open>open\<close> on the current image, \<open>fit\<close> to \<open>SIZE\<close>, the
  flattening, the JPEG \<open>save\<close>, \<open>tell\<close>, the constructor) followed by the one call of
  \<open>super().save\<close>, on the profile that run leaves, whose image is the constructor's
  result.  No branch skips the pipeline, whether or not the image was normalized before.
\<close>

theorem save_always_renormalizes:
  assumes "truthy (profile_image self)"
    and "save env st self db = (t, r, db')"
  shows "(\<exists>rest. t = Call_open (profile_image self) # rest) \<and>
     ((\<exists>e. r = Inl e \<and> db' = db \<and> (\<forall>p. Call_super_save p \<notin> set t) \<and>
            (\<forall>t0 p. \<not> normalizes env st self t0 p)) \<or>
      (\<exists>t0 p. normalizes env st self t0 p \<and>
               t = t0 @ [Call_super_save p] \<and>
               (r, db') = Model_save env p db))"
proof -
  obtain t0 r0 where run: "resize_profile_image env st self = (t0, r0)"
    by (cases "resize_profile_image env st self")
  from resize_starts_with_open[of env st self] run
  obtain rest0 where t0: "t0 = Call_open (profile_image self) # rest0" by auto
  have no: "\<And>p. Call_super_save p \<notin> set t0"
    using resize_no_super_save[of _ env st self] run by simp
  show ?thesis
  proof (cases r0)
    case (Inl e)
    with assms run have eq: "t = t0" "r = Inl e" "db' = db" by (simp_all add: save_def)
    have none: "\<not> normalizes env st self t1 p" for t1 p
    proof
      assume "normalizes env st self t1 p"
      then have "resize_profile_image env st self = (t1, Inr p)" by (rule normalizes_resize)
      with run Inl show False by simp
    qed
    from eq t0 no none show ?thesis by auto
  next
    case (Inr self')
    with assms run have t: "t = t0 @ [Call_super_save self']"
      and m: "(r, db') = Model_save env self' db"
      by (auto simp: save_def split: prod.splits)
    from run Inr have "normalizes env st self t0 self'"
      by (simp add: resize_normalizes)
    with t m t0 show ?thesis by auto
  qed
qed

text \<open>The theorem on a profile whose image an earlier save has normalized.\<close>

theorem save_always_renormalizes_witness:
  "truthy (profile_image (demo_profile normalized_upload)) \<and>
   save (demo_env []) demo_settings (demo_profile normalized_upload)
     [demo_profile normalized_upload] =
     ([Call_open normalized_upload,
       Call_fit gray_image (2, 2) ANTIALIAS (1/2, 1/2),
       Call_save gray_image ''JPEG'' 90,
       Call_tell gray_image,
       Call_InMemoryUploadedFile [0, 2, 2, 10, 20, 30, 40] ''ImageField'' (Some ''a.png'')
         ''image/jpeg'' 0,
       Call_super_save (demo_profile normalized_upload)],
      Inr (demo_profile normalized_upload),
      [demo_profile normalized_upload, demo_profile normalized_upload]) \<and>
   (\<exists>t0 p. normalizes (demo_env []) demo_settings (demo_profile normalized_upload) t0 p \<and>
      [Call_open normalized_upload,
       Call_fit gray_image (2, 2) ANTIALIAS (1/2, 1/2),
       Call_save gray_image ''JPEG'' 90,
       Call_tell gray_image,
       Call_InMemoryUploadedFile [0, 2, 2, 10, 20, 30, 40] ''ImageField'' (Some ''a.png'')
         ''image/jpeg'' 0,
       Call_super_save (demo_profile normalized_upload)] = t0 @ [Call_super_save p] \<and>
      (Inr (demo_profile normalized_upload),
       [demo_profile normalized_upload, demo_profile normalized_upload])
        = Model_save (demo_env []) p [demo_profile normalized_upload])"
proof -
  let ?p = "demo_profile normalized_upload"
  have tr: "truthy (profile_image ?p)"
    by (simp add: truthy_def demo_defs)
  have sv: "save (demo_env []) demo_settings ?p [?p] =
     ([Call_open normalized_upload,
       Call_fit gray_image (2, 2) ANTIALIAS (1/2, 1/2),
       Call_save gray_image ''JPEG'' 90,
       Call_tell gray_image,
       Call_InMemoryUploadedFile [0, 2, 2, 10, 20, 30, 40] ''ImageField'' (Some ''a.png'')
         ''image/jpeg'' 0,
       Call_super_save ?p],
      Inr ?p, [?p, ?p])"
    using tr by (simp add: save_def normalized_run demo_Model_save)
  from save_always_renormalizes[OF tr sv]
  have "\<exists>t0 p. normalizes (demo_env []) demo_settings ?p t0 p \<and>
      [Call_open normalized_upload,
       Call_fit gray_image (2, 2) ANTIALIAS (1/2, 1/2),
       Call_save gray_image ''JPEG'' 90,
       Call_tell gray_image,
       Call_InMemoryUploadedFile [0, 2, 2, 10, 20, 30, 40] ''ImageField'' (Some ''a.png'')
         ''image/jpeg'' 0,
       Call_super_save ?p] = t0 @ [Call_super_save p] \<and>
      (Inr ?p, [?p, ?p]) = Model_save (demo_env []) p [?p]"
    by blast
  with tr sv show ?thesis by (intro conjI)
qed

end
